theory Spec2Isabelle
  imports Main "HOL-Library.Sublist"
begin

section \<open>Thrown values and the validation adapter (lib/types/validation.ts)\<close>

text \<open>
  A Zod path segment is a string or a number. \<open>Array.prototype.join\<close> converts every
  element to a string; for a number that is the language's built-in number-to-string
  conversion, which is not code of this repository. A number segment is therefore
  represented by the string that conversion gives it: \<open>12\<close> is \<open>Index ''12''\<close>, \<open>-1.5\<close> is
  \<open>Index ''-1.5''\<close>, \<open>1e21\<close> is \<open>Index ''1e+21''\<close>.
\<close>

datatype segment = Key string | Index string

fun segmentString :: "segment \<Rightarrow> string" where
  "segmentString (Key s) = s"
| "segmentString (Index n) = n"

fun join :: "string \<Rightarrow> string list \<Rightarrow> string" where
  "join sep [] = []"
| "join sep [s] = s"
| "join sep (s # t # ts) = s @ sep @ join sep (t # ts)"

text \<open>
  The interface \<open>ValidationError\<close>. The adapter always initialises \<open>errors\<close> (to the empty
  object) and \<open>path\<close> (to the empty array) and never sets \<open>code\<close>. The map \<open>errors\<close> holds
  the own properties of the \<open>errors\<close> object.
\<close>

record validationError =
  message :: string
  path :: "segment list"
  errors :: "string \<rightharpoonup> string"
  code :: "string option"

text \<open>
  Anything a JavaScript function can throw: \<open>new Error(msg)\<close>, the plain object built by
  the validation adapter, or any other value (a Zod-unrelated exception of a hook, of the
  backend, ...).
\<close>

datatype 'x thrown = JsError string | ValidationFailure validationError | Raised 'x

text \<open>One entry of \<open>ZodError.errors\<close>; only \<open>path\<close> and \<open>message\<close> are read.\<close>

datatype zodIssue = ZodIssue (issue_path: "segment list") (issue_message: string)

text \<open>
  What \<open>schema.parse(data)\<close> of the underlying Zod schema does: it returns the parsed value,
  throws a \<open>ZodError\<close> carrying its issues, or throws something else.
\<close>

datatype ('t, 'x) zodOutcome = Parsed 't | ZodError "zodIssue list" | Threw "'x thrown"

text \<open>\<open>err.path.join(".")\<close>.\<close>

definition joinedPath :: "segment list \<Rightarrow> string" where
  "joinedPath p = join ''.'' (map segmentString p)"

text \<open>
  \<open>obj[key] = value\<close> on a plain object (created by \<open>{}\<close>) with a string value. Every key
  becomes, or overwrites, an own property, except \<open>__proto__\<close>: that assignment runs the
  setter inherited from \<open>Object.prototype\<close>, which ignores a value that is neither an
  object nor \<open>null\<close>, so the object is left as it was.
\<close>

definition objectAssign ::
    "(string \<rightharpoonup> string) \<Rightarrow> string \<Rightarrow> string \<Rightarrow> (string \<rightharpoonup> string)" where
  "objectAssign obj key val = (if key = ''__proto__'' then obj else obj(key \<mapsto> val))"

text \<open>The body of the \<open>forEach\<close> callback, applied to one issue \<open>err\<close>.\<close>

definition translateIssue :: "zodIssue \<Rightarrow> validationError \<Rightarrow> validationError" where
  "translateIssue err validationError =
     (let ve1 =
        (if length (issue_path err) > 0
         then validationError\<lparr>errors :=
                objectAssign (errors validationError) (joinedPath (issue_path err))
                  (issue_message err)\<rparr>
         else validationError)
      in if length (path ve1) = 0 \<and> length (issue_path err) > 0
         then ve1\<lparr>path := issue_path err\<rparr>
         else ve1)"

definition emptyValidationError :: validationError where
  "emptyValidationError =
     \<lparr>message = ''Validation failed'', path = [], errors = Map.empty, code = None\<rparr>"

definition zodErrorToValidationError :: "zodIssue list \<Rightarrow> validationError" where
  "zodErrorToValidationError issues = fold translateIssue issues emptyValidationError"

text \<open>
  A \<open>ValidationSchema\<close> is represented by its \<open>parse\<close> method, the only one the
  orchestrator calls. \<open>createZodValidationSchema(schema).parse\<close>:
\<close>

type_synonym ('d, 't, 'x) validationSchema = "'d \<Rightarrow> 'x thrown + 't"

definition createZodValidationSchema ::
    "('d \<Rightarrow> ('t, 'x) zodOutcome) \<Rightarrow> ('d, 't, 'x) validationSchema" where
  "createZodValidationSchema schema data =
     (case schema data of
        Parsed v \<Rightarrow> Inr v
      | ZodError issues \<Rightarrow> Inl (ValidationFailure (zodErrorToValidationError issues))
      | Threw e \<Rightarrow> Inl e)"

section \<open>The data-access service (CrudService)\<close>

text \<open>
  The constructor arguments of \<open>CrudService\<close>: the entity name, the optional API functions
  and the optional transformers. Read parameters are \<open>'q option\<close>, \<open>None\<close> being
  \<open>undefined\<close>. Console logging is left out.
\<close>

record ('d, 'res, 'q, 'x) crudApi =
  api_create :: "('d \<Rightarrow> 'x thrown + 'res) option"
  api_update :: "('d \<Rightarrow> 'x thrown + 'res) option"
  api_delete :: "('d \<Rightarrow> 'x thrown + 'res) option"
  api_getOne :: "(string \<Rightarrow> 'q option \<Rightarrow> 'x thrown + 'res) option"
  api_getMany :: "('q option \<Rightarrow> 'x thrown + 'res) option"

record ('d, 'q, 'x) crudTransformers =
  createDtoToEntity :: "('d \<Rightarrow> 'x thrown + 'd) option"
  updateDtoToEntity :: "('d \<Rightarrow> 'x thrown + 'd) option"
  deleteDtoToEntity :: "('d \<Rightarrow> 'x thrown + 'd) option"
  readParamsToQuery :: "('q \<Rightarrow> 'x thrown + 'q) option"

text \<open>The common shape of \<open>create\<close>, \<open>update\<close> and \<open>delete\<close>.\<close>

definition crudServiceCall ::
    "string \<Rightarrow> string \<Rightarrow> ('d \<Rightarrow> 'x thrown + 'res) option \<Rightarrow> ('d \<Rightarrow> 'x thrown + 'd) option
      \<Rightarrow> 'd \<Rightarrow> 'x thrown + 'res" where
  "crudServiceCall verbName entityName apiFn dtoToEntity data =
     (case apiFn of
        None \<Rightarrow> Inl (JsError (verbName @ '' API not implemented for '' @ entityName))
      | Some api \<Rightarrow>
          (case (case dtoToEntity of None \<Rightarrow> Inr data | Some t \<Rightarrow> t data) of
             Inl e \<Rightarrow> Inl e
           | Inr entityData \<Rightarrow> api entityData))"

definition CrudService_create ::
    "string \<Rightarrow> ('d, 'res, 'q, 'x) crudApi \<Rightarrow> ('d, 'q, 'x) crudTransformers option \<Rightarrow> 'd
      \<Rightarrow> 'x thrown + 'res" where
  "CrudService_create entityName api transformers data =
     crudServiceCall ''Create'' entityName (api_create api)
       (case transformers of None \<Rightarrow> None | Some t \<Rightarrow> createDtoToEntity t) data"

definition CrudService_update ::
    "string \<Rightarrow> ('d, 'res, 'q, 'x) crudApi \<Rightarrow> ('d, 'q, 'x) crudTransformers option \<Rightarrow> 'd
      \<Rightarrow> 'x thrown + 'res" where
  "CrudService_update entityName api transformers data =
     crudServiceCall ''Update'' entityName (api_update api)
       (case transformers of None \<Rightarrow> None | Some t \<Rightarrow> updateDtoToEntity t) data"

definition CrudService_delete ::
    "string \<Rightarrow> ('d, 'res, 'q, 'x) crudApi \<Rightarrow> ('d, 'q, 'x) crudTransformers option \<Rightarrow> 'd
      \<Rightarrow> 'x thrown + 'res" where
  "CrudService_delete entityName api transformers data =
     crudServiceCall ''Delete'' entityName (api_delete api)
       (case transformers of None \<Rightarrow> None | Some t \<Rightarrow> deleteDtoToEntity t) data"

text \<open>
  \<open>getOne(id, params)\<close>. When params are given and a query transformer is configured, the
  transformer receives \<open>{...params, id}\<close>; that object spread depends on the shape of the
  parameter object and is the argument \<open>withId\<close>. The source's \<open>id\<close> is called \<open>entityId\<close>.
\<close>

definition CrudService_getOne ::
    "('q \<Rightarrow> string \<Rightarrow> 'q) \<Rightarrow> string \<Rightarrow> ('d, 'res, 'q, 'x) crudApi
      \<Rightarrow> ('d, 'q, 'x) crudTransformers option \<Rightarrow> string \<Rightarrow> 'q option \<Rightarrow> 'x thrown + 'res" where
  "CrudService_getOne withId entityName api transformers entityId params =
     (case api_getOne api of
        None \<Rightarrow> Inl (JsError (''GetOne API not implemented for '' @ entityName))
      | Some getOneFn \<Rightarrow>
          (case (case params of
                   None \<Rightarrow> Inr None
                 | Some p \<Rightarrow>
                     (case (case transformers of None \<Rightarrow> None | Some t \<Rightarrow> readParamsToQuery t) of
                        None \<Rightarrow> Inr (Some p)
                      | Some toQuery \<Rightarrow>
                          (case toQuery (withId p entityId) of
                             Inl e \<Rightarrow> Inl e
                           | Inr transformedParams \<Rightarrow> Inr (Some transformedParams)))) of
             Inl e \<Rightarrow> Inl e
           | Inr queryParams \<Rightarrow> getOneFn entityId queryParams))"

definition CrudService_getMany ::
    "string \<Rightarrow> ('d, 'res, 'q, 'x) crudApi \<Rightarrow> ('d, 'q, 'x) crudTransformers option
      \<Rightarrow> 'q option \<Rightarrow> 'x thrown + 'res" where
  "CrudService_getMany entityName api transformers params =
     (case api_getMany api of
        None \<Rightarrow> Inl (JsError (''GetMany API not implemented for '' @ entityName))
      | Some getManyFn \<Rightarrow>
          (case (case params of
                   None \<Rightarrow> Inr None
                 | Some p \<Rightarrow>
                     (case (case transformers of None \<Rightarrow> None | Some t \<Rightarrow> readParamsToQuery t) of
                        None \<Rightarrow> Inr (Some p)
                      | Some toQuery \<Rightarrow>
                          (case toQuery p of
                             Inl e \<Rightarrow> Inl e
                           | Inr transformedParams \<Rightarrow> Inr (Some transformedParams)))) of
             Inl e \<Rightarrow> Inl e
           | Inr queryParams \<Rightarrow> getManyFn queryParams))"

section \<open>Operation state and effects (useCRUD)\<close>

record ('r, 'x) operationState =
  loading :: bool
  success :: bool
  error :: "'x thrown option"
  data :: "'r option"

definition defaultState :: "('r, 'x) operationState" where
  "defaultState = \<lparr>loading = False, success = False, error = None, data = None\<rparr>"

definition loadingState :: "('r, 'x) operationState" where
  "loadingState = \<lparr>loading = True, success = False, error = None, data = None\<rparr>"

definition errorState :: "'x thrown \<Rightarrow> ('r, 'x) operationState" where
  "errorState typedError =
     \<lparr>loading = False, success = False, error = Some typedError, data = None\<rparr>"

definition successState :: "'r \<Rightarrow> ('r, 'x) operationState" where
  "successState result =
     \<lparr>loading = False, success = True, error = None, data = Some result\<rparr>"

text \<open>
  \<open>Partial<OperationState>\<close>, the optional \<open>initialState\<close> of an options bundle: every key
  may be absent; \<open>Some None\<close> is an explicit \<open>null\<close>.
\<close>

record ('r, 'x) partialState =
  init_loading :: "bool option"
  init_success :: "bool option"
  init_error :: "'x thrown option option"
  init_data :: "'r option option"

text \<open>
  The argument of \<open>useState\<close>: the four defaults, overridden by the keys of
  \<open>initialState\<close> (object spread).
\<close>

definition initialOperationState ::
    "('r, 'x) partialState option \<Rightarrow> ('r, 'x) operationState" where
  "initialOperationState init =
     (case init of
        None \<Rightarrow> defaultState
      | Some p \<Rightarrow>
          \<lparr>loading = (case init_loading p of None \<Rightarrow> False | Some b \<Rightarrow> b),
           success = (case init_success p of None \<Rightarrow> False | Some b \<Rightarrow> b),
           error = (case init_error p of None \<Rightarrow> None | Some e \<Rightarrow> e),
           data = (case init_data p of None \<Rightarrow> None | Some d \<Rightarrow> d)\<rparr>)"

text \<open>
  The executors never read the state cell; they replace it through \<open>setState\<close> and invoke
  the caller's hooks. A run is therefore its outcome (\<open>Inl\<close>: the promise rejects with that
  value, \<open>Inr\<close>: it resolves) together with the effects it performed, in order. Hooks and
  backend functions are functions to an outcome; a hook whose promise never settles is
  outside this model.
\<close>

datatype ('s, 'c) effect = SetState 's | Call 'c

type_synonym ('e, 'v, 's, 'c) run = "('e + 'v) \<times> ('s, 'c) effect list"

definition resolve :: "'v \<Rightarrow> ('e, 'v, 's, 'c) run" where
  "resolve v = (Inr v, [])"

definition setState :: "'s \<Rightarrow> ('e, unit, 's, 'c) run" where
  "setState s = (Inr (), [SetState s])"

definition call :: "'c \<Rightarrow> 'e + 'v \<Rightarrow> ('e, 'v, 's, 'c) run" where
  "call c outcome = (outcome, [Call c])"

text \<open>Sequencing: a throw skips the rest of the block.\<close>

definition andThen ::
    "('e, 'v, 's, 'c) run \<Rightarrow> ('v \<Rightarrow> ('e, 'w, 's, 'c) run) \<Rightarrow> ('e, 'w, 's, 'c) run" where
  "andThen m k =
     (case m of
        (Inl e, t) \<Rightarrow> (Inl e, t)
      | (Inr v, t) \<Rightarrow> (case k v of (r, t') \<Rightarrow> (r, t @ t')))"

text \<open>\<open>try { m } catch (error) { handler error }\<close>.\<close>

definition orCatch ::
    "('e, 'v, 's, 'c) run \<Rightarrow> ('e \<Rightarrow> ('e, 'v, 's, 'c) run) \<Rightarrow> ('e, 'v, 's, 'c) run" where
  "orCatch m handler =
     (case m of
        (Inr v, t) \<Rightarrow> (Inr v, t)
      | (Inl e, t) \<Rightarrow> (case handler e of (r, t') \<Rightarrow> (r, t @ t')))"

text \<open>\<open>if (hook) { v = await hook(v) }\<close>.\<close>

definition optionalHook ::
    "('v \<Rightarrow> 'c) \<Rightarrow> ('v \<Rightarrow> 'e + 'v) option \<Rightarrow> 'v \<Rightarrow> ('e, 'v, 's, 'c) run" where
  "optionalHook c hook v = (case hook of None \<Rightarrow> resolve v | Some h \<Rightarrow> call (c v) (h v))"

text \<open>The content of a state cell after the effects of a run: the last write, if any.\<close>

fun stateAfter :: "'s \<Rightarrow> ('s, 'c) effect list \<Rightarrow> 's" where
  "stateAfter s [] = s"
| "stateAfter s (SetState s' # t) = stateAfter s' t"
| "stateAfter s (Call c # t) = stateAfter s t"

section \<open>executeOperation (create, update, delete)\<close>

record ('a, 'r, 'x) operationOptions =
  validationSchema :: "('a, 'a, 'x) validationSchema option"
  transformer :: "('a \<Rightarrow> 'x thrown + 'a) option"
  resultTransformer :: "('r \<Rightarrow> 'x thrown + 'r) option"
  service :: "('a \<Rightarrow> 'x thrown + 'r) option"
  beforeValidation :: "('a \<Rightarrow> 'x thrown + 'a) option"
  beforeService :: "('a \<Rightarrow> 'x thrown + 'a) option"
  afterService :: "('r \<Rightarrow> 'a \<Rightarrow> 'x thrown + 'r) option"
  onError :: "('x thrown \<Rightarrow> 'a \<Rightarrow> 'x thrown + unit) option"
  onSuccess :: "('r \<Rightarrow> 'a \<Rightarrow> 'x thrown + unit) option"
  initialState :: "('r, 'x) partialState option"

datatype ('a, 'r, 'x) operationCall =
    BeforeValidation 'a
  | Parse 'a
  | Transformer 'a
  | BeforeService 'a
  | Service 'a
  | ResultTransformer 'r
  | AfterService 'r 'a
  | OnSuccess 'r 'a
  | OnError "'x thrown" 'a

type_synonym ('a, 'r, 'x) operationRun =
  "('x thrown, 'r, ('r, 'x) operationState, ('a, 'r, 'x) operationCall) run"

text \<open>Phase 2: \<open>schema.parse\<close> inside its own try/catch, which writes the error state and rethrows.\<close>

definition validationPhase ::
    "('a, 'a, 'x) validationSchema option \<Rightarrow> 'a
      \<Rightarrow> ('x thrown, 'a, ('r, 'x) operationState, ('a, 'r, 'x) operationCall) run" where
  "validationPhase schema processedData =
     (case schema of
        None \<Rightarrow> resolve processedData
      | Some parse \<Rightarrow>
          (case parse processedData of
             Inr v \<Rightarrow> (Inr v, [Call (Parse processedData)])
           | Inl typedError \<Rightarrow>
               (Inl typedError, [Call (Parse processedData), SetState (errorState typedError)])))"

text \<open>
  The \<open>try\<close> block of \<open>executeOperation\<close>, phases 1 to 9. The parameter \<open>data\<close> of the
  source is called \<open>input\<close> here (\<open>data\<close> is the field of the state record).
\<close>

definition executeOperation_try ::
    "'a \<Rightarrow> ('a, 'r, 'x) operationOptions \<Rightarrow> ('a \<Rightarrow> 'x thrown + 'r) \<Rightarrow> ('a, 'r, 'x) operationRun" where
  "executeOperation_try input opOptions svc =
     andThen (optionalHook BeforeValidation (beforeValidation opOptions) input) (\<lambda>processedData0.
     andThen (validationPhase (validationSchema opOptions) processedData0) (\<lambda>processedData.
     andThen (optionalHook Transformer (transformer opOptions) processedData) (\<lambda>serviceData0.
     andThen (optionalHook BeforeService (beforeService opOptions) serviceData0) (\<lambda>serviceData.
     andThen (call (Service serviceData) (svc serviceData)) (\<lambda>serviceResult.
     andThen (optionalHook ResultTransformer (resultTransformer opOptions) serviceResult) (\<lambda>result0.
     andThen (case afterService opOptions of
                None \<Rightarrow> resolve result0
              | Some h \<Rightarrow> call (AfterService result0 serviceData) (h result0 serviceData)) (\<lambda>result.
     andThen (setState (successState result)) (\<lambda>_.
     andThen (case onSuccess opOptions of
                None \<Rightarrow> resolve ()
              | Some h \<Rightarrow> call (OnSuccess result processedData) (h result processedData)) (\<lambda>_.
     resolve result)))))))))"

text \<open>The \<open>catch\<close> block of \<open>executeOperation\<close>.\<close>

definition executeOperation_catch ::
    "'a \<Rightarrow> ('a, 'r, 'x) operationOptions \<Rightarrow> 'x thrown \<Rightarrow> ('a, 'r, 'x) operationRun" where
  "executeOperation_catch input opOptions typedError =
     andThen (setState (errorState typedError)) (\<lambda>_.
     andThen (case onError opOptions of
                None \<Rightarrow> resolve ()
              | Some h \<Rightarrow> call (OnError typedError input) (h typedError input)) (\<lambda>_.
     (Inl typedError, [])))"

definition executeOperation ::
    "'a \<Rightarrow> ('a, 'r, 'x) operationOptions option \<Rightarrow> ('a, 'r, 'x) operationRun" where
  "executeOperation input opOptions =
     (case opOptions of
        None \<Rightarrow> (Inl (JsError ''Operation not configured''), [])
      | Some opts \<Rightarrow>
          (case service opts of
             None \<Rightarrow> (Inl (JsError ''Operation not configured''), [])
           | Some svc \<Rightarrow>
               andThen (setState loadingState) (\<lambda>_.
               orCatch (executeOperation_try input opts svc)
                       (executeOperation_catch input opts))))"

section \<open>executeReadOne and executeReadMany\<close>

text \<open>
  Read parameters are \<open>'p option\<close>: \<open>None\<close> is \<open>undefined\<close> (the optional argument left
  out), \<open>Some p\<close> a parameter object, which is truthy. The guards
  \<open>processedParams && ...\<close> of the source are therefore tests for \<open>Some\<close>. The parameter
  \<open>id\<close> of the source is called \<open>entityId\<close>.
\<close>

record ('p, 'o, 'm, 'x) readService =
  getOne :: "(string \<Rightarrow> 'p option \<Rightarrow> 'x thrown + 'o) option"
  getMany :: "('p option \<Rightarrow> 'x thrown + 'm) option"

record ('p, 'o, 'm, 'x) readOperationOptions =
  read_validationSchema :: "('p, 'p, 'x) validationSchema option"
  read_transformer :: "('p \<Rightarrow> 'x thrown + 'p) option"
  read_service :: "('p, 'o, 'm, 'x) readService option"
  read_beforeValidation :: "('p \<Rightarrow> 'x thrown + 'p) option"
  read_beforeService :: "('p \<Rightarrow> 'x thrown + 'p) option"
  afterServiceOne :: "('o \<Rightarrow> string \<Rightarrow> 'x thrown + 'o) option"
  afterServiceMany :: "('m \<Rightarrow> 'p option \<Rightarrow> 'x thrown + 'm) option"
  onErrorOne :: "('x thrown \<Rightarrow> string \<Rightarrow> 'x thrown + unit) option"
  onErrorMany :: "('x thrown \<Rightarrow> 'p \<Rightarrow> 'x thrown + unit) option"
  onSuccessOne :: "('o \<Rightarrow> string \<Rightarrow> 'x thrown + unit) option"
  onSuccessMany :: "('m \<Rightarrow> 'p option \<Rightarrow> 'x thrown + unit) option"
  initialStateOne :: "('o, 'x) partialState option"
  initialStateMany :: "('m, 'x) partialState option"

datatype ('p, 'o, 'm, 'x) readCall =
    ReadParse 'p
  | ReadTransformer 'p
  | ReadBeforeService 'p
  | GetOne string "'p option"
  | AfterServiceOne 'o string
  | OnSuccessOne 'o string
  | OnErrorOne "'x thrown" string
  | GetMany "'p option"
  | AfterServiceMany 'm "'p option"
  | OnSuccessMany 'm "'p option"
  | OnErrorMany "'x thrown" 'p

type_synonym ('p, 'o, 'm, 'x, 'v, 's) readRun =
  "('x thrown, 'v, ('s, 'x) operationState, ('p, 'o, 'm, 'x) readCall) run"

text \<open>\<open>if (processedParams && options.read.validationSchema) { try { parse } catch { ... } }\<close>.\<close>

definition readValidationPhase ::
    "('p, 'p, 'x) validationSchema option \<Rightarrow> 'p option
      \<Rightarrow> ('p, 'o, 'm, 'x, 'p option, 's) readRun" where
  "readValidationPhase schema processedParams =
     (case processedParams of
        None \<Rightarrow> resolve None
      | Some p \<Rightarrow>
          (case schema of
             None \<Rightarrow> resolve (Some p)
           | Some parse \<Rightarrow>
               (case parse p of
                  Inr v \<Rightarrow> (Inr (Some v), [Call (ReadParse p)])
                | Inl typedError \<Rightarrow>
                    (Inl typedError, [Call (ReadParse p), SetState (errorState typedError)]))))"

text \<open>\<open>if (processedParams && hook) { processedParams = hook(processedParams) }\<close>.\<close>

definition optionalParamsHook ::
    "('p \<Rightarrow> 'c) \<Rightarrow> ('p \<Rightarrow> 'e + 'p) option \<Rightarrow> 'p option \<Rightarrow> ('e, 'p option, 's, 'c) run" where
  "optionalParamsHook c hook processedParams =
     (case processedParams of
        None \<Rightarrow> resolve None
      | Some p \<Rightarrow>
          (case hook of
             None \<Rightarrow> resolve (Some p)
           | Some h \<Rightarrow>
               (case h p of
                  Inl e \<Rightarrow> (Inl e, [Call (c p)])
                | Inr v \<Rightarrow> (Inr (Some v), [Call (c p)]))))"

definition executeReadOne_try ::
    "string \<Rightarrow> 'p option \<Rightarrow> ('p, 'o, 'm, 'x) readOperationOptions
      \<Rightarrow> (string \<Rightarrow> 'p option \<Rightarrow> 'x thrown + 'o) \<Rightarrow> ('p, 'o, 'm, 'x, 'o, 'o) readRun" where
  "executeReadOne_try entityId params ro getOneFn =
     andThen (readValidationPhase (read_validationSchema ro) params) (\<lambda>processedParams0.
     andThen (optionalParamsHook ReadTransformer (read_transformer ro) processedParams0) (\<lambda>processedParams1.
     andThen (optionalParamsHook ReadBeforeService (read_beforeService ro) processedParams1) (\<lambda>processedParams.
     andThen (call (GetOne entityId processedParams) (getOneFn entityId processedParams)) (\<lambda>result.
     andThen (case afterServiceOne ro of
                None \<Rightarrow> resolve result
              | Some h \<Rightarrow> call (AfterServiceOne result entityId) (h result entityId)) (\<lambda>processedResult.
     andThen (setState (successState processedResult)) (\<lambda>_.
     andThen (case onSuccessOne ro of
                None \<Rightarrow> resolve ()
              | Some h \<Rightarrow> call (OnSuccessOne processedResult entityId) (h processedResult entityId)) (\<lambda>_.
     resolve processedResult)))))))"

definition executeReadOne_catch ::
    "string \<Rightarrow> ('p, 'o, 'm, 'x) readOperationOptions \<Rightarrow> 'x thrown
      \<Rightarrow> ('p, 'o, 'm, 'x, 'o, 'o) readRun" where
  "executeReadOne_catch entityId ro typedError =
     andThen (setState (errorState typedError)) (\<lambda>_.
     andThen (case onErrorOne ro of
                None \<Rightarrow> resolve ()
              | Some h \<Rightarrow> call (OnErrorOne typedError entityId) (h typedError entityId)) (\<lambda>_.
     (Inl typedError, [])))"

definition executeReadOne ::
    "string \<Rightarrow> 'p option \<Rightarrow> ('p, 'o, 'm, 'x) readOperationOptions option
      \<Rightarrow> ('p, 'o, 'm, 'x, 'o, 'o) readRun" where
  "executeReadOne entityId params optionsRead =
     (case optionsRead of
        None \<Rightarrow> (Inl (JsError ''Read operation not configured''), [])
      | Some ro \<Rightarrow>
          (case read_service ro of
             None \<Rightarrow> (Inl (JsError ''Read operation not configured''), [])
           | Some svc \<Rightarrow>
               (case getOne svc of
                  None \<Rightarrow> (Inl (JsError ''Read operation not configured''), [])
                | Some getOneFn \<Rightarrow>
                    andThen (setState loadingState) (\<lambda>_.
                    orCatch (executeReadOne_try entityId params ro getOneFn)
                            (executeReadOne_catch entityId ro)))))"

definition executeReadMany_try ::
    "'p option \<Rightarrow> ('p, 'o, 'm, 'x) readOperationOptions
      \<Rightarrow> ('p option \<Rightarrow> 'x thrown + 'm) \<Rightarrow> ('p, 'o, 'm, 'x, 'm, 'm) readRun" where
  "executeReadMany_try params ro getManyFn =
     andThen (readValidationPhase (read_validationSchema ro) params) (\<lambda>processedParams0.
     andThen (optionalParamsHook ReadTransformer (read_transformer ro) processedParams0) (\<lambda>processedParams1.
     andThen (optionalParamsHook ReadBeforeService (read_beforeService ro) processedParams1) (\<lambda>processedParams.
     andThen (call (GetMany processedParams) (getManyFn processedParams)) (\<lambda>result.
     andThen (case afterServiceMany ro of
                None \<Rightarrow> resolve result
              | Some h \<Rightarrow> call (AfterServiceMany result processedParams)
                                (h result processedParams)) (\<lambda>processedResult.
     andThen (setState (successState processedResult)) (\<lambda>_.
     andThen (case onSuccessMany ro of
                None \<Rightarrow> resolve ()
              | Some h \<Rightarrow>
                  (case processedParams of
                     None \<Rightarrow> resolve ()
                   | Some p \<Rightarrow> call (OnSuccessMany processedResult (Some p))
                                     (h processedResult (Some p)))) (\<lambda>_.
     resolve processedResult)))))))"

definition executeReadMany_catch ::
    "'p option \<Rightarrow> ('p, 'o, 'm, 'x) readOperationOptions \<Rightarrow> 'x thrown
      \<Rightarrow> ('p, 'o, 'm, 'x, 'm, 'm) readRun" where
  "executeReadMany_catch params ro typedError =
     andThen (setState (errorState typedError)) (\<lambda>_.
     andThen (case onErrorMany ro of
                None \<Rightarrow> resolve ()
              | Some h \<Rightarrow>
                  (case params of
                     None \<Rightarrow> resolve ()
                   | Some p \<Rightarrow> call (OnErrorMany typedError p) (h typedError p))) (\<lambda>_.
     (Inl typedError, [])))"

definition executeReadMany ::
    "'p option \<Rightarrow> ('p, 'o, 'm, 'x) readOperationOptions option
      \<Rightarrow> ('p, 'o, 'm, 'x, 'm, 'm) readRun" where
  "executeReadMany params optionsRead =
     (case optionsRead of
        None \<Rightarrow> (Inl (JsError ''Read many operation not configured''), [])
      | Some ro \<Rightarrow>
          (case read_service ro of
             None \<Rightarrow> (Inl (JsError ''Read many operation not configured''), [])
           | Some svc \<Rightarrow>
               (case getMany svc of
                  None \<Rightarrow> (Inl (JsError ''Read many operation not configured''), [])
                | Some getManyFn \<Rightarrow>
                    andThen (setState loadingState) (\<lambda>_.
                    orCatch (executeReadMany_try params ro getManyFn)
                            (executeReadMany_catch params ro)))))"

section \<open>The object returned by useCRUD\<close>

record ('a, 'r, 'p, 'o, 'm, 'x) useCRUDOptions =
  create :: "('a, 'r, 'x) operationOptions option"
  update :: "('a, 'r, 'x) operationOptions option"
  delete :: "('a, 'r, 'x) operationOptions option"
  read :: "('p, 'o, 'm, 'x) readOperationOptions option"

text \<open>The five state cells of one hook instance.\<close>

record ('r, 'o, 'm, 'x) crudStates =
  createState :: "('r, 'x) operationState"
  updateState :: "('r, 'x) operationState"
  deleteState :: "('r, 'x) operationState"
  readOneState :: "('o, 'x) operationState"
  readManyState :: "('m, 'x) operationState"

text \<open>The cells as \<open>useState\<close> creates them on the first render.\<close>

definition useCRUD_initialStates ::
    "('a, 'r, 'p, 'o, 'm, 'x) useCRUDOptions \<Rightarrow> ('r, 'o, 'm, 'x) crudStates" where
  "useCRUD_initialStates options =
     \<lparr>createState = initialOperationState
        (case create options of None \<Rightarrow> None | Some c \<Rightarrow> initialState c),
      updateState = initialOperationState
        (case update options of None \<Rightarrow> None | Some c \<Rightarrow> initialState c),
      deleteState = initialOperationState
        (case delete options of None \<Rightarrow> None | Some c \<Rightarrow> initialState c),
      readOneState = initialOperationState
        (case read options of None \<Rightarrow> None | Some ro \<Rightarrow> initialStateOne ro),
      readManyState = initialOperationState
        (case read options of None \<Rightarrow> None | Some ro \<Rightarrow> initialStateMany ro)\<rparr>"

text \<open>
  \<open>create.execute\<close>, \<open>update.execute\<close>, ...: the executor, run with the setter of the verb's
  own cell. The result is the outcome of the promise and the cells after the call.
\<close>

definition create_execute ::
    "('a, 'r, 'p, 'o, 'm, 'x) useCRUDOptions \<Rightarrow> 'a \<Rightarrow> ('r, 'o, 'm, 'x) crudStates
      \<Rightarrow> ('x thrown + 'r) \<times> ('r, 'o, 'm, 'x) crudStates" where
  "create_execute options input states =
     (case executeOperation input (create options) of
        (outcome, effects) \<Rightarrow>
          (outcome, states\<lparr>createState := stateAfter (createState states) effects\<rparr>))"

definition update_execute ::
    "('a, 'r, 'p, 'o, 'm, 'x) useCRUDOptions \<Rightarrow> 'a \<Rightarrow> ('r, 'o, 'm, 'x) crudStates
      \<Rightarrow> ('x thrown + 'r) \<times> ('r, 'o, 'm, 'x) crudStates" where
  "update_execute options input states =
     (case executeOperation input (update options) of
        (outcome, effects) \<Rightarrow>
          (outcome, states\<lparr>updateState := stateAfter (updateState states) effects\<rparr>))"

definition delete_execute ::
    "('a, 'r, 'p, 'o, 'm, 'x) useCRUDOptions \<Rightarrow> 'a \<Rightarrow> ('r, 'o, 'm, 'x) crudStates
      \<Rightarrow> ('x thrown + 'r) \<times> ('r, 'o, 'm, 'x) crudStates" where
  "delete_execute options input states =
     (case executeOperation input (delete options) of
        (outcome, effects) \<Rightarrow>
          (outcome, states\<lparr>deleteState := stateAfter (deleteState states) effects\<rparr>))"

definition readOne_execute ::
    "('a, 'r, 'p, 'o, 'm, 'x) useCRUDOptions \<Rightarrow> string \<Rightarrow> 'p option
      \<Rightarrow> ('r, 'o, 'm, 'x) crudStates \<Rightarrow> ('x thrown + 'o) \<times> ('r, 'o, 'm, 'x) crudStates" where
  "readOne_execute options entityId params states =
     (case executeReadOne entityId params (read options) of
        (outcome, effects) \<Rightarrow>
          (outcome, states\<lparr>readOneState := stateAfter (readOneState states) effects\<rparr>))"

definition readMany_execute ::
    "('a, 'r, 'p, 'o, 'm, 'x) useCRUDOptions \<Rightarrow> 'p option
      \<Rightarrow> ('r, 'o, 'm, 'x) crudStates \<Rightarrow> ('x thrown + 'm) \<times> ('r, 'o, 'm, 'x) crudStates" where
  "readMany_execute options params states =
     (case executeReadMany params (read options) of
        (outcome, effects) \<Rightarrow>
          (outcome, states\<lparr>readManyState := stateAfter (readManyState states) effects\<rparr>))"

text \<open>The five \<open>reset\<close> closures: each writes the literal default record to its cell.\<close>

definition create_reset :: "('r, 'o, 'm, 'x) crudStates \<Rightarrow> ('r, 'o, 'm, 'x) crudStates" where
  "create_reset states =
     states\<lparr>createState := \<lparr>loading = False, success = False, error = None, data = None\<rparr>\<rparr>"

definition update_reset :: "('r, 'o, 'm, 'x) crudStates \<Rightarrow> ('r, 'o, 'm, 'x) crudStates" where
  "update_reset states =
     states\<lparr>updateState := \<lparr>loading = False, success = False, error = None, data = None\<rparr>\<rparr>"

definition delete_reset :: "('r, 'o, 'm, 'x) crudStates \<Rightarrow> ('r, 'o, 'm, 'x) crudStates" where
  "delete_reset states =
     states\<lparr>deleteState := \<lparr>loading = False, success = False, error = None, data = None\<rparr>\<rparr>"

definition readOne_reset :: "('r, 'o, 'm, 'x) crudStates \<Rightarrow> ('r, 'o, 'm, 'x) crudStates" where
  "readOne_reset states =
     states\<lparr>readOneState := \<lparr>loading = False, success = False, error = None, data = None\<rparr>\<rparr>"

definition readMany_reset :: "('r, 'o, 'm, 'x) crudStates \<Rightarrow> ('r, 'o, 'm, 'x) crudStates" where
  "readMany_reset states =
     states\<lparr>readManyState := \<lparr>loading = False, success = False, error = None, data = None\<rparr>\<rparr>"

section \<open>createTypedCrud\<close>

text \<open>
  \<open>TypedReadManyResult\<close> and the transformers given to \<open>createTypedCrud\<close>. TypeScript's
  types are erased at run time, so infrastructure entities and UI entities are values of
  one type \<open>'e\<close>; the transformers are pure functions.
\<close>

record ('e, 'mt) typedReadManyResult =
  result_data :: "'e list"
  result_meta :: 'mt

record ('e, 'mt) transformOptions =
  infraEntityToUI :: "'e \<Rightarrow> 'e"
  uiEntityToInfra :: "('e \<Rightarrow> 'e) option"
  infraReadManyToUI :: "(('e, 'mt) typedReadManyResult \<Rightarrow> ('e, 'mt) typedReadManyResult) option"

definition transformReadManyResult ::
    "('e, 'mt) transformOptions \<Rightarrow> ('e, 'mt) typedReadManyResult
      \<Rightarrow> ('e, 'mt) typedReadManyResult" where
  "transformReadManyResult transformOpts result =
     (case infraReadManyToUI transformOpts of
        Some g \<Rightarrow> g result
      | None \<Rightarrow>
          \<lparr>result_data = map (infraEntityToUI transformOpts) (result_data result),
           result_meta = result_meta result\<rparr>)"

definition createOptions ::
    "('e, 'mt) transformOptions \<Rightarrow> ('a, 'e, 'x) operationOptions option
      \<Rightarrow> ('a, 'e, 'x) operationOptions option" where
  "createOptions transformOpts optionsCreate =
     (case optionsCreate of
        None \<Rightarrow> None
      | Some c \<Rightarrow>
          Some (c\<lparr>resultTransformer := Some (\<lambda>r. Inr (infraEntityToUI transformOpts r)),
                  afterService := Some
                    (case afterService c of
                       Some h \<Rightarrow>
                         (\<lambda>result originalData.
                            h (infraEntityToUI transformOpts result) originalData)
                     | None \<Rightarrow>
                         (\<lambda>result originalData. Inr (infraEntityToUI transformOpts result)))\<rparr>))"

definition updateOptions ::
    "('e, 'mt) transformOptions \<Rightarrow> ('a, 'e, 'x) operationOptions option
      \<Rightarrow> ('a, 'e, 'x) operationOptions option" where
  "updateOptions transformOpts optionsUpdate =
     (case optionsUpdate of
        None \<Rightarrow> None
      | Some c \<Rightarrow>
          Some (c\<lparr>resultTransformer := Some (\<lambda>r. Inr (infraEntityToUI transformOpts r)),
                  afterService := Some
                    (case afterService c of
                       Some h \<Rightarrow>
                         (\<lambda>result originalData.
                            h (infraEntityToUI transformOpts result) originalData)
                     | None \<Rightarrow>
                         (\<lambda>result originalData. Inr (infraEntityToUI transformOpts result)))\<rparr>))"

definition readOptions ::
    "('e, 'mt) transformOptions
      \<Rightarrow> ('p, 'e, ('e, 'mt) typedReadManyResult, 'x) readOperationOptions option
      \<Rightarrow> ('p, 'e, ('e, 'mt) typedReadManyResult, 'x) readOperationOptions option" where
  "readOptions transformOpts optionsRead =
     (case optionsRead of
        None \<Rightarrow> None
      | Some ro \<Rightarrow>
          Some (ro\<lparr>afterServiceOne := Some
                     (\<lambda>result entityId.
                        let transformedResult = infraEntityToUI transformOpts result
                        in (case onSuccessOne ro of
                              None \<Rightarrow> Inr transformedResult
                            | Some h \<Rightarrow>
                                (case h transformedResult entityId of
                                   Inl e \<Rightarrow> Inl e
                                 | Inr u \<Rightarrow> Inr transformedResult))),
                   afterServiceMany := Some
                     (\<lambda>result params.
                        let transformedResult = transformReadManyResult transformOpts result
                        in (case onSuccessMany ro of
                              None \<Rightarrow> Inr transformedResult
                            | Some h \<Rightarrow>
                                (case h transformedResult params of
                                   Inl e \<Rightarrow> Inl e
                                 | Inr u \<Rightarrow> Inr transformedResult)))\<rparr>))"

text \<open>
  \<open>createTypedCrud(transformOptions)(options)\<close> returns \<open>useCRUD(typedOptions)\<close>: the verbs
  of the typed hook are the verbs of \<open>useCRUD\<close> on these options.
\<close>

definition typedOptions ::
    "('e, 'mt) transformOptions
      \<Rightarrow> ('a, 'e, 'p, 'e, ('e, 'mt) typedReadManyResult, 'x) useCRUDOptions
      \<Rightarrow> ('a, 'e, 'p, 'e, ('e, 'mt) typedReadManyResult, 'x) useCRUDOptions" where
  "typedOptions transformOpts options =
     \<lparr>create = createOptions transformOpts (create options),
      update = updateOptions transformOpts (update options),
      delete = delete options,
      read = readOptions transformOpts (read options)\<rparr>"

section \<open>Configuration guards and example configurations\<close>

text \<open>
  The negations of the guards that open the three executors
  (\<open>!opOptions || !opOptions.service\<close>, and the two for the read verbs).
\<close>

definition operationConfigured :: "('a, 'r, 'x) operationOptions option \<Rightarrow> bool" where
  "operationConfigured opOptions =
     (case opOptions of None \<Rightarrow> False | Some opts \<Rightarrow> service opts \<noteq> None)"

definition readOneConfigured :: "('p, 'o, 'm, 'x) readOperationOptions option \<Rightarrow> bool" where
  "readOneConfigured optionsRead =
     (case optionsRead of
        None \<Rightarrow> False
      | Some ro \<Rightarrow> (case read_service ro of None \<Rightarrow> False | Some svc \<Rightarrow> getOne svc \<noteq> None))"

definition readManyConfigured :: "('p, 'o, 'm, 'x) readOperationOptions option \<Rightarrow> bool" where
  "readManyConfigured optionsRead =
     (case optionsRead of
        None \<Rightarrow> False
      | Some ro \<Rightarrow> (case read_service ro of None \<Rightarrow> False | Some svc \<Rightarrow> getMany svc \<noteq> None))"

text \<open>The payloads the backend function was called with during a run, in order.\<close>

fun servicePayloads ::
    "(('r, 'x) operationState, ('a, 'r, 'x) operationCall) effect list \<Rightarrow> 'a list" where
  "servicePayloads [] = []"
| "servicePayloads (Call (Service x) # t) = x # servicePayloads t"
| "servicePayloads (e # t) = servicePayloads t"

fun getManyPayloads ::
    "(('s, 'x) operationState, ('p, 'o, 'm, 'x) readCall) effect list \<Rightarrow> 'p option list" where
  "getManyPayloads [] = []"
| "getManyPayloads (Call (GetMany p) # t) = p # getManyPayloads t"
| "getManyPayloads (e # t) = getManyPayloads t"

text \<open>Options bundles that supply the backend functions and nothing else.\<close>

definition serviceOnly :: "('a \<Rightarrow> 'x thrown + 'r) \<Rightarrow> ('a, 'r, 'x) operationOptions" where
  "serviceOnly svc =
     \<lparr>validationSchema = None, transformer = None, resultTransformer = None,
      service = Some svc, beforeValidation = None, beforeService = None,
      afterService = None, onError = None, onSuccess = None, initialState = None\<rparr>"

definition readServiceOnly ::
    "(string \<Rightarrow> 'p option \<Rightarrow> 'x thrown + 'o) \<Rightarrow> ('p option \<Rightarrow> 'x thrown + 'm)
      \<Rightarrow> ('p, 'o, 'm, 'x) readOperationOptions" where
  "readServiceOnly getOneFn getManyFn =
     \<lparr>read_validationSchema = None, read_transformer = None,
      read_service = Some \<lparr>getOne = Some getOneFn, getMany = Some getManyFn\<rparr>,
      read_beforeValidation = None, read_beforeService = None,
      afterServiceOne = None, afterServiceMany = None,
      onErrorOne = None, onErrorMany = None, onSuccessOne = None, onSuccessMany = None,
      initialStateOne = None, initialStateMany = None\<rparr>"

text \<open>
  A hook instance whose five verbs are configured: create succeeds, the backend of update
  throws, the schema of delete rejects, the reads succeed.
\<close>

definition exampleOptions :: "(int, int, int, int, int, unit) useCRUDOptions" where
  "exampleOptions =
     \<lparr>create = Some (serviceOnly (\<lambda>d. Inr (d + 1))),
      update = Some (serviceOnly (\<lambda>d. Inl (Raised ()))),
      delete = Some ((serviceOnly Inr)
                 \<lparr>validationSchema := Some (\<lambda>d. Inl (ValidationFailure emptyValidationError))\<rparr>),
      read = Some (readServiceOnly (\<lambda>i p. Inr 0) (\<lambda>p. Inr 0))\<rparr>"

text \<open>The scenario of the specification: create is configured, update is not.\<close>

definition createOnlyOptions :: "(int, int, int, int, int, unit) useCRUDOptions" where
  "createOnlyOptions =
     \<lparr>create = Some (serviceOnly Inr), update = None, delete = None, read = None\<rparr>"

text \<open>A create bundle with an \<open>initialState\<close> override that preloads data.\<close>

definition preloadedOptions :: "(int, int, int, int, int, unit) useCRUDOptions" where
  "preloadedOptions =
     \<lparr>create = Some ((serviceOnly Inr)
                 \<lparr>initialState := Some \<lparr>init_loading = None, init_success = None,
                                        init_error = None, init_data = Some (Some 7)\<rparr>\<rparr>),
      update = None, delete = None, read = None\<rparr>"

text \<open>A hook instance with no verb configured, and a service without API functions.\<close>

definition emptyOptions :: "(int, int, int, int, int, unit) useCRUDOptions" where
  "emptyOptions = \<lparr>create = None, update = None, delete = None, read = None\<rparr>"

definition emptyApi :: "(int, int, int, unit) crudApi" where
  "emptyApi =
     \<lparr>api_create = None, api_update = None, api_delete = None,
      api_getOne = None, api_getMany = None\<rparr>"

text \<open>A create bundle whose \<open>onSuccess\<close> hook throws.\<close>

definition throwingOnSuccess :: "(int, int, unit) operationOptions" where
  "throwingOnSuccess =
     (serviceOnly (\<lambda>d. Inr (d + 1)))\<lparr>onSuccess := Some (\<lambda>r d. Inl (Raised ()))\<rparr>"

text \<open>A create bundle whose schema rejects every input and whose \<open>onError\<close> hook returns.\<close>

definition rejectingSchema :: "(int, int, unit) operationOptions" where
  "rejectingSchema =
     (serviceOnly Inr)
       \<lparr>validationSchema := Some (\<lambda>d. Inl (ValidationFailure emptyValidationError)),
        onError := Some (\<lambda>e d. Inr ())\<rparr>"

text \<open>A create bundle without transformer whose \<open>beforeService\<close> hook rewrites the payload.\<close>

definition rewritingBeforeService :: "(int, int, unit) operationOptions" where
  "rewritingBeforeService = (serviceOnly Inr)\<lparr>beforeService := Some (\<lambda>d. Inr (d + 1))\<rparr>"

text \<open>A create bundle whose \<open>onSuccess\<close> hook returns normally.\<close>

definition returningOnSuccess :: "(int, int, unit) operationOptions" where
  "returningOnSuccess =
     (serviceOnly (\<lambda>d. Inr (d + 1)))\<lparr>onSuccess := Some (\<lambda>r d. Inr ())\<rparr>"

text \<open>A read bundle with both success and error notifiers for read-many.\<close>

definition notifyingRead :: "(int, int, int, unit) readOperationOptions" where
  "notifyingRead =
     (readServiceOnly (\<lambda>i p. Inr 0) (\<lambda>p. Inr 5))
       \<lparr>onSuccessMany := Some (\<lambda>r p. Inr ()), onErrorMany := Some (\<lambda>e p. Inr ())\<rparr>"

text \<open>
  A create bundle whose \<open>onSuccess\<close> hook throws only when the validated input is \<open>1\<close>.
\<close>

definition pickyOnSuccess :: "(int, int, unit) operationOptions" where
  "pickyOnSuccess =
     (serviceOnly (\<lambda>d. Inr (d + 1)))
       \<lparr>onSuccess := Some (\<lambda>r d. if d = 1 then Inl (Raised ()) else Inr ())\<rparr>"

text \<open>Two Zod issues on the same field, as a chained string schema reports them.\<close>

definition duplicatePathIssues :: "zodIssue list" where
  "duplicatePathIssues =
     [ZodIssue [Key ''email''] ''Too short'', ZodIssue [Key ''email''] ''Invalid email'']"

text \<open>
  A form-level issue (empty path), an issue on a field called \<open>__proto__\<close>, and two more
  field-level issues, one of them inside an array.
\<close>

definition mixedIssues :: "zodIssue list" where
  "mixedIssues =
     [ZodIssue [] ''Passwords differ'',
      ZodIssue [Key ''__proto__''] ''Unexpected'',
      ZodIssue [Key ''items'', Index ''12'', Key ''name''] ''Required'',
      ZodIssue [Key ''email''] ''Invalid email'']"

text \<open>An underlying Zod schema that rejects every input with the given issues.\<close>

definition failingZodSchema :: "zodIssue list \<Rightarrow> int \<Rightarrow> (int, unit) zodOutcome" where
  "failingZodSchema issues d = ZodError issues"

text \<open>
  A typed hook: \<open>infraEntityToUI\<close> adds 100; the create backend resolves with \<open>6\<close>,
  \<open>getOne\<close> with \<open>7\<close> and \<open>getMany\<close> with three entities and a metadata object.
\<close>

definition addHundred :: "(int, string) transformOptions" where
  "addHundred =
     \<lparr>infraEntityToUI = (\<lambda>x. x + 100), uiEntityToInfra = None, infraReadManyToUI = None\<rparr>"

definition addHundredWhole :: "(int, string) transformOptions" where
  "addHundredWhole =
     addHundred\<lparr>infraReadManyToUI := Some (\<lambda>r. r\<lparr>result_data := rev (result_data r)\<rparr>)\<rparr>"

definition typedExampleOptions ::
    "(int, int, int, int, (int, string) typedReadManyResult, unit) useCRUDOptions" where
  "typedExampleOptions =
     \<lparr>create = Some (serviceOnly (\<lambda>d. Inr 6)),
      update = None,
      delete = None,
      read = Some (readServiceOnly (\<lambda>i p. Inr 7)
                     (\<lambda>p. Inr \<lparr>result_data = [1, 2, 3], result_meta = ''page 1''\<rparr>))\<rparr>"

text \<open>A read bundle for a typed hook whose \<open>onSuccessMany\<close> notifier throws.\<close>

definition throwingNotify ::
    "(int, int, (int, string) typedReadManyResult, unit) readOperationOptions" where
  "throwingNotify =
     (readServiceOnly (\<lambda>i p. Inr 7)
        (\<lambda>p. Inr \<lparr>result_data = [1, 2, 3], result_meta = ''page 1''\<rparr>))
       \<lparr>onSuccessMany := Some (\<lambda>r p. Inl (Raised ()))\<rparr>"

section \<open>Reasoning about runs\<close>

lemma stateAfter_append: "stateAfter s (t1 @ t2) = stateAfter (stateAfter s t1) t2"
  by (induction s t1 rule: stateAfter.induct) simp_all

lemma andThen_InrE:
  assumes "andThen m k = (Inr r, t)"
  obtains v t1 t2 where "m = (Inr v, t1)" "k v = (Inr r, t2)" "t = t1 @ t2"
  using assms by (auto simp: andThen_def split: prod.splits sum.splits)

lemma fst_andThen:
  "fst (andThen m k) = (case fst m of Inl e \<Rightarrow> Inl e | Inr v \<Rightarrow> fst (k v))"
  by (auto simp: andThen_def split: prod.splits sum.splits)

lemma snd_andThen:
  "snd (andThen m k) = snd m @ (case fst m of Inl e \<Rightarrow> [] | Inr v \<Rightarrow> snd (k v))"
  by (auto simp: andThen_def split: prod.splits sum.splits)

lemma fst_orCatch:
  "fst (orCatch m h) = (case fst m of Inr v \<Rightarrow> Inr v | Inl e \<Rightarrow> fst (h e))"
  by (auto simp: orCatch_def split: prod.splits sum.splits)

lemma snd_orCatch:
  "snd (orCatch m h) = snd m @ (case fst m of Inr v \<Rightarrow> [] | Inl e \<Rightarrow> snd (h e))"
  by (auto simp: orCatch_def split: prod.splits sum.splits)

lemmas run_simps =
  fst_andThen snd_andThen fst_orCatch snd_orCatch resolve_def setState_def call_def
  optionalHook_def

lemma operation_try_success_state:
  assumes "executeOperation_try input opts svc = (Inr r, t)"
  shows "stateAfter s t = successState r"
  using assms unfolding executeOperation_try_def
  apply (elim andThen_InrE)
  apply (auto simp: stateAfter_append setState_def resolve_def call_def split: option.splits)
  done

lemma operation_catch_state:
  "stateAfter s (snd (executeOperation_catch input opts e)) = errorState e"
  by (auto simp: executeOperation_catch_def run_simps split: option.splits sum.splits)

lemma readOne_try_success_state:
  assumes "executeReadOne_try entityId params ro g = (Inr r, t)"
  shows "stateAfter s t = successState r"
  using assms unfolding executeReadOne_try_def
  apply (elim andThen_InrE)
  apply (auto simp: stateAfter_append setState_def resolve_def call_def split: option.splits)
  done

lemma readOne_catch_state:
  "stateAfter s (snd (executeReadOne_catch entityId ro e)) = errorState e"
  by (auto simp: executeReadOne_catch_def run_simps split: option.splits sum.splits)

lemma readMany_try_success_state:
  assumes "executeReadMany_try params ro g = (Inr r, t)"
  shows "stateAfter s t = successState r"
  using assms unfolding executeReadMany_try_def
  apply (elim andThen_InrE)
  apply (auto simp: stateAfter_append setState_def resolve_def call_def split: option.splits)
  done

lemma readMany_catch_state:
  "stateAfter s (snd (executeReadMany_catch params ro e)) = errorState e"
  by (auto simp: executeReadMany_catch_def run_simps split: option.splits sum.splits)

text \<open>
  After a configured run the cell holds the success record of the resolved value, or the
  error record of the value the \<open>catch\<close> block caught.
\<close>

lemma executeOperation_final_state:
  assumes "operationConfigured opOptions"
  shows "(\<exists>r. fst (executeOperation input opOptions) = Inr r
              \<and> stateAfter s (snd (executeOperation input opOptions)) = successState r)
       \<or> (\<exists>e. stateAfter s (snd (executeOperation input opOptions)) = errorState e
              \<and> (\<exists>e'. fst (executeOperation input opOptions) = Inl e'))"
proof -
  from assms obtain opts svc where o: "opOptions = Some opts" "service opts = Some svc"
    by (auto simp: operationConfigured_def split: option.splits)
  obtain out t where tr: "executeOperation_try input opts svc = (out, t)"
    by (cases "executeOperation_try input opts svc")
  show ?thesis
  proof (cases out)
    case (Inl e)
    have c: "\<exists>e'. fst (executeOperation_catch input opts e) = Inl e'"
      by (auto simp: executeOperation_catch_def run_simps split: option.splits sum.splits)
    show ?thesis using o tr Inl c operation_catch_state[of _ input opts e]
      by (auto simp: executeOperation_def run_simps stateAfter_append)
  next
    case (Inr r)
    with tr operation_try_success_state have "\<And>s. stateAfter s t = successState r" by fastforce
    then show ?thesis using o tr Inr
      by (simp add: executeOperation_def run_simps stateAfter_append)
  qed
qed

lemma executeReadOne_final_state:
  assumes "readOneConfigured optionsRead"
  shows "(\<exists>r. fst (executeReadOne entityId params optionsRead) = Inr r
              \<and> stateAfter s (snd (executeReadOne entityId params optionsRead)) = successState r)
       \<or> (\<exists>e. stateAfter s (snd (executeReadOne entityId params optionsRead)) = errorState e
              \<and> (\<exists>e'. fst (executeReadOne entityId params optionsRead) = Inl e'))"
proof -
  from assms obtain ro svc g where
    o: "optionsRead = Some ro" "read_service ro = Some svc" "getOne svc = Some g"
    by (auto simp: readOneConfigured_def split: option.splits)
  obtain out t where tr: "executeReadOne_try entityId params ro g = (out, t)"
    by (cases "executeReadOne_try entityId params ro g")
  show ?thesis
  proof (cases out)
    case (Inl e)
    have c: "\<exists>e'. fst (executeReadOne_catch entityId ro e) = Inl e'"
      by (auto simp: executeReadOne_catch_def run_simps split: option.splits sum.splits)
    show ?thesis using o tr Inl c readOne_catch_state[of _ entityId ro e]
      by (auto simp: executeReadOne_def run_simps stateAfter_append)
  next
    case (Inr r)
    with tr readOne_try_success_state have "\<And>s. stateAfter s t = successState r" by fastforce
    then show ?thesis using o tr Inr
      by (simp add: executeReadOne_def run_simps stateAfter_append)
  qed
qed

lemma executeReadMany_final_state:
  assumes "readManyConfigured optionsRead"
  shows "(\<exists>r. fst (executeReadMany params optionsRead) = Inr r
              \<and> stateAfter s (snd (executeReadMany params optionsRead)) = successState r)
       \<or> (\<exists>e. stateAfter s (snd (executeReadMany params optionsRead)) = errorState e
              \<and> (\<exists>e'. fst (executeReadMany params optionsRead) = Inl e'))"
proof -
  from assms obtain ro svc g where
    o: "optionsRead = Some ro" "read_service ro = Some svc" "getMany svc = Some g"
    by (auto simp: readManyConfigured_def split: option.splits)
  obtain out t where tr: "executeReadMany_try params ro g = (out, t)"
    by (cases "executeReadMany_try params ro g")
  show ?thesis
  proof (cases out)
    case (Inl e)
    have c: "\<exists>e'. fst (executeReadMany_catch params ro e) = Inl e'"
      by (auto simp: executeReadMany_catch_def run_simps split: option.splits sum.splits)
    show ?thesis using o tr Inl c readMany_catch_state[of _ params ro e]
      by (auto simp: executeReadMany_def run_simps stateAfter_append)
  next
    case (Inr r)
    with tr readMany_try_success_state have "\<And>s. stateAfter s t = successState r" by fastforce
    then show ?thesis using o tr Inr
      by (simp add: executeReadMany_def run_simps stateAfter_append)
  qed
qed

lemma loading_successState: "\<not> loading (successState r)"
  by (simp add: successState_def)

lemma loading_errorState: "\<not> loading (errorState e)"
  by (simp add: errorState_def)

section \<open>Claims\<close>

text \<open>
  C1. For every configured verb (create, update, delete, read-one, read-many), once
  \<open>execute\<close> has settled, by resolving or by rejecting, the verb's state cell has
  \<open>loading = False\<close>, whatever the hooks, the schema and the backend did and whatever the
  cell held before.
\<close>

theorem execute_settles_not_loading:
  "(operationConfigured (create options) \<longrightarrow>
      \<not> loading (createState (snd (create_execute options input states))))
   \<and> (operationConfigured (update options) \<longrightarrow>
      \<not> loading (updateState (snd (update_execute options input states))))
   \<and> (operationConfigured (delete options) \<longrightarrow>
      \<not> loading (deleteState (snd (delete_execute options input states))))
   \<and> (readOneConfigured (read options) \<longrightarrow>
      \<not> loading (readOneState (snd (readOne_execute options entityId params states))))
   \<and> (readManyConfigured (read options) \<longrightarrow>
      \<not> loading (readManyState (snd (readMany_execute options params states))))"
proof (intro conjI impI)
  assume "operationConfigured (create options)"
  from executeOperation_final_state[OF this, of input "createState states"]
  show "\<not> loading (createState (snd (create_execute options input states)))"
    by (auto simp: create_execute_def loading_successState loading_errorState split: prod.splits)
next
  assume "operationConfigured (update options)"
  from executeOperation_final_state[OF this, of input "updateState states"]
  show "\<not> loading (updateState (snd (update_execute options input states)))"
    by (auto simp: update_execute_def loading_successState loading_errorState split: prod.splits)
next
  assume "operationConfigured (delete options)"
  from executeOperation_final_state[OF this, of input "deleteState states"]
  show "\<not> loading (deleteState (snd (delete_execute options input states)))"
    by (auto simp: delete_execute_def loading_successState loading_errorState split: prod.splits)
next
  assume "readOneConfigured (read options)"
  from executeReadOne_final_state[OF this, of entityId params "readOneState states"]
  show "\<not> loading (readOneState (snd (readOne_execute options entityId params states)))"
    by (auto simp: readOne_execute_def loading_successState loading_errorState split: prod.splits)
next
  assume "readManyConfigured (read options)"
  from executeReadMany_final_state[OF this, of params "readManyState states"]
  show "\<not> loading (readManyState (snd (readMany_execute options params states)))"
    by (auto simp: readMany_execute_def loading_successState loading_errorState split: prod.splits)
qed

theorem execute_settles_not_loading_witness:
  "operationConfigured (create exampleOptions)
   \<and> operationConfigured (update exampleOptions)
   \<and> operationConfigured (delete exampleOptions)
   \<and> readOneConfigured (read exampleOptions)
   \<and> readManyConfigured (read exampleOptions)
   \<and> \<not> loading (createState (snd (create_execute exampleOptions 1
                                      (useCRUD_initialStates exampleOptions))))
   \<and> \<not> loading (updateState (snd (update_execute exampleOptions 1
                                      (useCRUD_initialStates exampleOptions))))
   \<and> \<not> loading (deleteState (snd (delete_execute exampleOptions 1
                                      (useCRUD_initialStates exampleOptions))))
   \<and> \<not> loading (readOneState (snd (readOne_execute exampleOptions ''42'' None
                                      (useCRUD_initialStates exampleOptions))))
   \<and> \<not> loading (readManyState (snd (readMany_execute exampleOptions None
                                      (useCRUD_initialStates exampleOptions))))"
  using execute_settles_not_loading
          [of exampleOptions 1 "useCRUD_initialStates exampleOptions" "''42''" None]
  by (simp add: exampleOptions_def operationConfigured_def readOneConfigured_def
        readManyConfigured_def serviceOnly_def readServiceOnly_def)

text \<open>
  C3, as stated, fails: with create configured and update not, \<open>update.execute\<close> rejects
  with \<open>Error("Operation not configured")\<close>. The message contains neither the verb nor an
  entity name (the hook is never given one), and it is the very rejection an unconfigured
  delete produces.
\<close>

theorem unconfigured_update_counterexample:
  "fst (update_execute createOnlyOptions 1 (useCRUD_initialStates createOnlyOptions))
     = Inl (JsError ''Operation not configured'')
   \<and> \<not> sublist ''update'' ''Operation not configured''
   \<and> \<not> sublist ''Update'' ''Operation not configured''
   \<and> fst (update_execute createOnlyOptions 1 (useCRUD_initialStates createOnlyOptions))
     = fst (delete_execute createOnlyOptions 1 (useCRUD_initialStates createOnlyOptions))"
proof (intro conjI)
  show "\<not> sublist ''update'' ''Operation not configured''" by code_simp
  show "\<not> sublist ''Update'' ''Operation not configured''" by code_simp
qed (simp_all add: update_execute_def delete_execute_def executeOperation_def
       createOnlyOptions_def)

text \<open>
  C3, amended. Calling \<open>execute\<close> on a verb whose options or service function was not
  supplied rejects with a fixed configuration error: \<open>Error("Operation not configured")\<close>
  for create, update and delete, \<open>Error("Read operation not configured")\<close> for read-one
  and \<open>Error("Read many operation not configured")\<close> for read-many. The run performs no
  effect at all: no state write (the cell never enters loading and keeps its content) and
  no hook call. The error that names the entity and the verb is the one of the data-access
  service: a \<open>CrudService\<close> method whose API function was not supplied rejects with
  \<open>"<Verb> API not implemented for <entityName>"\<close>.
\<close>

theorem unconfigured_verb_rejects_unchanged:
  "(\<not> operationConfigured (create options) \<longrightarrow>
      create_execute options input states = (Inl (JsError ''Operation not configured''), states)
      \<and> snd (executeOperation input (create options)) = [])
   \<and> (\<not> operationConfigured (update options) \<longrightarrow>
      update_execute options input states = (Inl (JsError ''Operation not configured''), states)
      \<and> snd (executeOperation input (update options)) = [])
   \<and> (\<not> operationConfigured (delete options) \<longrightarrow>
      delete_execute options input states = (Inl (JsError ''Operation not configured''), states)
      \<and> snd (executeOperation input (delete options)) = [])
   \<and> (\<not> readOneConfigured (read options) \<longrightarrow>
      readOne_execute options entityId params states
        = (Inl (JsError ''Read operation not configured''), states)
      \<and> snd (executeReadOne entityId params (read options)) = [])
   \<and> (\<not> readManyConfigured (read options) \<longrightarrow>
      readMany_execute options params states
        = (Inl (JsError ''Read many operation not configured''), states)
      \<and> snd (executeReadMany params (read options)) = [])
   \<and> (api_create api = None \<longrightarrow>
      CrudService_create entityName api transformers dto
        = Inl (JsError (''Create API not implemented for '' @ entityName)))
   \<and> (api_update api = None \<longrightarrow>
      CrudService_update entityName api transformers dto
        = Inl (JsError (''Update API not implemented for '' @ entityName)))
   \<and> (api_delete api = None \<longrightarrow>
      CrudService_delete entityName api transformers dto
        = Inl (JsError (''Delete API not implemented for '' @ entityName)))
   \<and> (api_getOne api = None \<longrightarrow>
      CrudService_getOne withId entityName api transformers entityId query
        = Inl (JsError (''GetOne API not implemented for '' @ entityName)))
   \<and> (api_getMany api = None \<longrightarrow>
      CrudService_getMany entityName api transformers query
        = Inl (JsError (''GetMany API not implemented for '' @ entityName)))"
proof -
  have op: "executeOperation input opOptions = (Inl (JsError ''Operation not configured''), [])"
    if "\<not> operationConfigured opOptions" for opOptions :: "('a, 'b, 'c) operationOptions option"
    using that
    by (simp add: operationConfigured_def executeOperation_def split: option.splits)
  have one: "executeReadOne entityId params (read options)
               = (Inl (JsError ''Read operation not configured''), [])"
    if "\<not> readOneConfigured (read options)"
    using that
    by (simp add: readOneConfigured_def executeReadOne_def split: option.splits)
  have many: "executeReadMany params (read options)
               = (Inl (JsError ''Read many operation not configured''), [])"
    if "\<not> readManyConfigured (read options)"
    using that
    by (simp add: readManyConfigured_def executeReadMany_def split: option.splits)
  show ?thesis
    by (simp add: op one many create_execute_def update_execute_def delete_execute_def
          readOne_execute_def readMany_execute_def CrudService_create_def
          CrudService_update_def CrudService_delete_def crudServiceCall_def
          CrudService_getOne_def CrudService_getMany_def)
qed

theorem unconfigured_verb_rejects_unchanged_witness:
  "\<not> operationConfigured (create emptyOptions)
   \<and> \<not> operationConfigured (update emptyOptions)
   \<and> \<not> operationConfigured (delete emptyOptions)
   \<and> \<not> readOneConfigured (read emptyOptions)
   \<and> \<not> readManyConfigured (read emptyOptions)
   \<and> api_create emptyApi = None \<and> api_update emptyApi = None \<and> api_delete emptyApi = None
   \<and> api_getOne emptyApi = None \<and> api_getMany emptyApi = None
   \<and> update_execute emptyOptions 1 (useCRUD_initialStates emptyOptions)
       = (Inl (JsError ''Operation not configured''), useCRUD_initialStates emptyOptions)
   \<and> snd (executeOperation (1::int) (update emptyOptions)) = []
   \<and> readMany_execute emptyOptions None (useCRUD_initialStates emptyOptions)
       = (Inl (JsError ''Read many operation not configured''),
          useCRUD_initialStates emptyOptions)
   \<and> CrudService_update ''Task'' emptyApi None 1
       = Inl (JsError ''Update API not implemented for Task'')
   \<and> CrudService_getOne (\<lambda>p i. p) ''Task'' emptyApi None ''42'' None
       = Inl (JsError ''GetOne API not implemented for Task'')
   \<and> CrudService_getMany ''Task'' emptyApi None None
       = Inl (JsError ''GetMany API not implemented for Task'')"
  using unconfigured_verb_rejects_unchanged
          [where options = emptyOptions and input = 1
             and states = "useCRUD_initialStates emptyOptions" and entityId = "''42''"
             and params = None and api = emptyApi and entityName = "''Task''"
             and transformers = None and dto = 1 and withId = "\<lambda>p i. p" and query = None]
  by (simp add: emptyOptions_def emptyApi_def operationConfigured_def readOneConfigured_def
        readManyConfigured_def)

text \<open>
  C6, as stated, fails: when an \<open>initialState\<close> override was supplied, \<open>reset\<close> does not
  restore it. Here create was set up with preloaded data \<open>7\<close>; after \<open>reset\<close> the cell
  differs from the configured initial state.
\<close>

theorem reset_ignores_initial_override_counterexample:
  "createState (useCRUD_initialStates preloadedOptions)
     = \<lparr>loading = False, success = False, error = None, data = Some 7\<rparr>
   \<and> createState (create_reset (useCRUD_initialStates preloadedOptions))
     \<noteq> createState (useCRUD_initialStates preloadedOptions)"
  by (simp add: useCRUD_initialStates_def preloadedOptions_def serviceOnly_def
        initialOperationState_def create_reset_def)

text \<open>
  C6, amended. For every verb and every prior content of the cells, \<open>reset()\<close> sets the
  verb's state to exactly \<open>{loading:false, success:false, error:null, data:null}\<close>,
  whether or not an initial override was configured, and leaves the other verbs' cells
  as they were.
\<close>

theorem reset_sets_default:
  "create_reset states = states\<lparr>createState := defaultState\<rparr>
   \<and> update_reset states = states\<lparr>updateState := defaultState\<rparr>
   \<and> delete_reset states = states\<lparr>deleteState := defaultState\<rparr>
   \<and> readOne_reset states = states\<lparr>readOneState := defaultState\<rparr>
   \<and> readMany_reset states = states\<lparr>readManyState := defaultState\<rparr>
   \<and> createState (create_reset states)
       = \<lparr>loading = False, success = False, error = None, data = None\<rparr>
   \<and> updateState (update_reset states)
       = \<lparr>loading = False, success = False, error = None, data = None\<rparr>
   \<and> deleteState (delete_reset states)
       = \<lparr>loading = False, success = False, error = None, data = None\<rparr>
   \<and> readOneState (readOne_reset states)
       = \<lparr>loading = False, success = False, error = None, data = None\<rparr>
   \<and> readManyState (readMany_reset states)
       = \<lparr>loading = False, success = False, error = None, data = None\<rparr>"
  by (simp add: create_reset_def update_reset_def delete_reset_def readOne_reset_def
        readMany_reset_def defaultState_def)

text \<open>
  C4, as stated, fails: \<open>onSuccess\<close> is awaited inside the \<open>try\<close> block. When it throws
  after the success record was written, the \<open>catch\<close> block overwrites the cell with the
  error record and \<open>execute\<close> rejects.
\<close>

theorem onSuccess_throw_counterexample:
  "executeOperation 1 (Some throwingOnSuccess)
     = (Inl (Raised ()),
        [SetState loadingState, Call (Service 1), SetState (successState 2),
         Call (OnSuccess 2 1), SetState (errorState (Raised ()))])
   \<and> stateAfter defaultState (snd (executeOperation 1 (Some throwingOnSuccess)))
     = errorState (Raised ())"
  by (simp add: executeOperation_def executeOperation_try_def executeOperation_catch_def
        throwingOnSuccess_def serviceOnly_def validationPhase_def andThen_def orCatch_def
        resolve_def setState_def call_def optionalHook_def)

lemma operation_try_without_onSuccess:
  assumes "executeOperation_try input (opts\<lparr>onSuccess := None\<rparr>) svc = (Inr r, t)"
      and "onSuccess opts = Some h"
  shows "\<exists>d1 pd t0.
           (case beforeValidation opts of None \<Rightarrow> Inr input | Some b \<Rightarrow> b input) = Inr d1
         \<and> (case validationSchema opts of None \<Rightarrow> Inr d1 | Some parse \<Rightarrow> parse d1) = Inr pd
         \<and> t = t0 @ [SetState (successState r)]
         \<and> executeOperation_try input opts svc
             = ((case h r pd of Inl e \<Rightarrow> Inl e | Inr u \<Rightarrow> Inr r),
                t @ [Call (OnSuccess r pd)])"
  using assms unfolding executeOperation_try_def
  apply (elim andThen_InrE)
  apply (auto simp: andThen_def resolve_def setState_def call_def optionalHook_def
           validationPhase_def
         split: sum.splits option.splits)
  done

text \<open>
  C4, amended. Let the pipeline succeed with result \<open>r\<close>: the run without the hook resolves
  with \<open>r\<close> and its last effect is the write of the success record. With the hook, that
  same run is followed by the call \<open>onSuccess(r, pd)\<close>, \<open>pd\<close> being the validated input. If
  the hook returns, nothing else happens: \<open>execute\<close> resolves with \<open>r\<close> whatever the hook
  returned, and the cell keeps the success record. If the hook throws \<open>e\<close>, the \<open>catch\<close>
  block then overwrites the success record with the error record of \<open>e\<close> and calls
  \<open>onError(e, input)\<close> if configured, and \<open>execute\<close> rejects with \<open>e\<close> (or with what \<open>onError\<close>
  throws).
\<close>

theorem onSuccess_outcome:
  assumes "service opts = Some svc" and "onSuccess opts = Some h"
      and "executeOperation input (Some (opts\<lparr>onSuccess := None\<rparr>)) = (Inr r, t)"
  shows "\<exists>d1 pd t0.
           (case beforeValidation opts of None \<Rightarrow> Inr input | Some b \<Rightarrow> b input) = Inr d1
         \<and> (case validationSchema opts of None \<Rightarrow> Inr d1 | Some parse \<Rightarrow> parse d1) = Inr pd
         \<and> t = t0 @ [SetState (successState r)]
         \<and> stateAfter s t = successState r
         \<and> executeOperation input (Some opts)
             = (case h r pd of
                  Inr u \<Rightarrow> (Inr r, t @ [Call (OnSuccess r pd)])
                | Inl e \<Rightarrow>
                    ((case onError opts of
                        None \<Rightarrow> Inl e
                      | Some g \<Rightarrow> (case g e input of Inl e' \<Rightarrow> Inl e' | Inr u \<Rightarrow> Inl e)),
                     t @ [Call (OnSuccess r pd), SetState (errorState e)]
                       @ (case onError opts of
                            None \<Rightarrow> []
                          | Some g \<Rightarrow> [Call (OnError e input)])))
         \<and> stateAfter s (snd (executeOperation input (Some opts)))
             = (case h r pd of Inr u \<Rightarrow> successState r | Inl e \<Rightarrow> errorState e)"
proof -
  obtain out0 t' where t': "executeOperation_try input (opts\<lparr>onSuccess := None\<rparr>) svc = (out0, t')"
    by (cases "executeOperation_try input (opts\<lparr>onSuccess := None\<rparr>) svc")
  have out0: "out0 = Inr r" and t: "t = SetState loadingState # t'"
    using assms(1,3) t'
    by (auto simp: executeOperation_def executeOperation_catch_def andThen_def orCatch_def
               setState_def resolve_def call_def
             split: sum.splits option.splits prod.splits)
  from operation_try_without_onSuccess[OF t'[unfolded out0] assms(2)]
  obtain d1 pd t0 where
    d1: "(case beforeValidation opts of None \<Rightarrow> Inr input | Some b \<Rightarrow> b input) = Inr d1"
    and pd: "(case validationSchema opts of None \<Rightarrow> Inr d1 | Some parse \<Rightarrow> parse d1) = Inr pd"
    and t0: "t' = t0 @ [SetState (successState r)]"
    and tr: "executeOperation_try input opts svc
               = ((case h r pd of Inl e \<Rightarrow> Inl e | Inr u \<Rightarrow> Inr r),
                  t' @ [Call (OnSuccess r pd)])"
    by blast
  have run: "executeOperation input (Some opts)
             = (case h r pd of
                  Inr u \<Rightarrow> (Inr r, t @ [Call (OnSuccess r pd)])
                | Inl e \<Rightarrow>
                    ((case onError opts of
                        None \<Rightarrow> Inl e
                      | Some g \<Rightarrow> (case g e input of Inl e' \<Rightarrow> Inl e' | Inr u \<Rightarrow> Inl e)),
                     t @ [Call (OnSuccess r pd), SetState (errorState e)]
                       @ (case onError opts of
                            None \<Rightarrow> []
                          | Some g \<Rightarrow> [Call (OnError e input)])))"
    using assms(1) tr t
    by (auto simp: executeOperation_def executeOperation_catch_def andThen_def orCatch_def
               setState_def resolve_def call_def
             split: sum.splits option.splits)
  have st: "stateAfter s t = successState r"
    by (simp add: t t0 stateAfter_append)
  have fin: "stateAfter s (snd (executeOperation input (Some opts)))
             = (case h r pd of Inr u \<Rightarrow> successState r | Inl e \<Rightarrow> errorState e)"
    by (auto simp: run t t0 stateAfter_append split: sum.splits option.splits)
  have "t = (SetState loadingState # t0) @ [SetState (successState r)]"
    by (simp add: t t0)
  with d1 pd st run fin show ?thesis by blast
qed

theorem onSuccess_outcome_witness:
  "service throwingOnSuccess = Some (\<lambda>d. Inr (d + 1))
   \<and> onSuccess throwingOnSuccess = Some (\<lambda>r d. Inl (Raised ()))
   \<and> executeOperation 1 (Some (throwingOnSuccess\<lparr>onSuccess := None\<rparr>))
       = (Inr 2, [SetState loadingState, Call (Service 1), SetState (successState 2)])
   \<and> executeOperation 1 (Some throwingOnSuccess)
       = (Inl (Raised ()),
          [SetState loadingState, Call (Service 1), SetState (successState 2),
           Call (OnSuccess 2 1), SetState (errorState (Raised ()))])
   \<and> service returningOnSuccess = Some (\<lambda>d. Inr (d + 1))
   \<and> onSuccess returningOnSuccess = Some (\<lambda>r d. Inr ())
   \<and> executeOperation 1 (Some (returningOnSuccess\<lparr>onSuccess := None\<rparr>))
       = (Inr 2, [SetState loadingState, Call (Service 1), SetState (successState 2)])
   \<and> executeOperation 1 (Some returningOnSuccess)
       = (Inr 2,
          [SetState loadingState, Call (Service 1), SetState (successState 2),
           Call (OnSuccess 2 1)])
   \<and> service pickyOnSuccess = Some (\<lambda>d. Inr (d + 1))
   \<and> onSuccess pickyOnSuccess
       = Some (\<lambda>r d. if d = 1 then Inl (Raised ()) else Inr ())
   \<and> executeOperation 1 (Some (pickyOnSuccess\<lparr>onSuccess := None\<rparr>))
       = (Inr 2, [SetState loadingState, Call (Service 1), SetState (successState 2)])
   \<and> stateAfter defaultState (snd (executeOperation 1 (Some pickyOnSuccess)))
       = errorState (Raised ())
   \<and> executeOperation 5 (Some (pickyOnSuccess\<lparr>onSuccess := None\<rparr>))
       = (Inr 6, [SetState loadingState, Call (Service 5), SetState (successState 6)])
   \<and> stateAfter defaultState (snd (executeOperation 5 (Some pickyOnSuccess)))
       = successState 6"
proof -
  have a: "service throwingOnSuccess = Some (\<lambda>d. Inr (d + 1))"
    and b: "onSuccess throwingOnSuccess = Some (\<lambda>r d. Inl (Raised ()))"
    and d: "onError throwingOnSuccess = None"
       "beforeValidation throwingOnSuccess = None" "validationSchema throwingOnSuccess = None"
    by (simp_all add: throwingOnSuccess_def serviceOnly_def)
  have c: "executeOperation 1 (Some (throwingOnSuccess\<lparr>onSuccess := None\<rparr>))
       = (Inr 2, [SetState loadingState, Call (Service 1), SetState (successState 2)])"
    by (simp add: executeOperation_def executeOperation_try_def executeOperation_catch_def
        throwingOnSuccess_def serviceOnly_def validationPhase_def andThen_def orCatch_def
        resolve_def setState_def call_def optionalHook_def)
  have a': "service returningOnSuccess = Some (\<lambda>d. Inr (d + 1))"
    and b': "onSuccess returningOnSuccess = Some (\<lambda>r d. Inr ())"
    and d': "beforeValidation returningOnSuccess = None"
       "validationSchema returningOnSuccess = None"
    by (simp_all add: returningOnSuccess_def serviceOnly_def)
  have c': "executeOperation 1 (Some (returningOnSuccess\<lparr>onSuccess := None\<rparr>))
       = (Inr 2, [SetState loadingState, Call (Service 1), SetState (successState 2)])"
    by (simp add: executeOperation_def executeOperation_try_def executeOperation_catch_def
        returningOnSuccess_def serviceOnly_def validationPhase_def andThen_def orCatch_def
        resolve_def setState_def call_def optionalHook_def)
  have a'': "service pickyOnSuccess = Some (\<lambda>d. Inr (d + 1))"
    and b'': "onSuccess pickyOnSuccess
       = Some (\<lambda>r d. if d = 1 then Inl (Raised ()) else Inr ())"
    and d'': "beforeValidation pickyOnSuccess = None" "validationSchema pickyOnSuccess = None"
    by (simp_all add: pickyOnSuccess_def serviceOnly_def)
  have c'': "executeOperation 1 (Some (pickyOnSuccess\<lparr>onSuccess := None\<rparr>))
       = (Inr 2, [SetState loadingState, Call (Service 1), SetState (successState 2)])"
    and e'': "executeOperation 5 (Some (pickyOnSuccess\<lparr>onSuccess := None\<rparr>))
       = (Inr 6, [SetState loadingState, Call (Service 5), SetState (successState 6)])"
    by (simp_all add: executeOperation_def executeOperation_try_def executeOperation_catch_def
        pickyOnSuccess_def serviceOnly_def validationPhase_def andThen_def orCatch_def
        resolve_def setState_def call_def optionalHook_def)
  have 1: "executeOperation 1 (Some throwingOnSuccess)
       = (Inl (Raised ()),
          [SetState loadingState, Call (Service 1), SetState (successState 2),
           Call (OnSuccess 2 1), SetState (errorState (Raised ()))])"
    using onSuccess_outcome[OF a b c, where s = defaultState] d by auto
  have 2: "executeOperation 1 (Some returningOnSuccess)
       = (Inr 2,
          [SetState loadingState, Call (Service 1), SetState (successState 2),
           Call (OnSuccess 2 1)])"
    using onSuccess_outcome[OF a' b' c', where s = defaultState] d' by auto
  have 3: "stateAfter defaultState (snd (executeOperation 1 (Some pickyOnSuccess)))
       = errorState (Raised ())"
    using onSuccess_outcome[OF a'' b'' c'', where s = defaultState] d'' by auto
  have 4: "stateAfter defaultState (snd (executeOperation 5 (Some pickyOnSuccess)))
       = successState 6"
    using onSuccess_outcome[OF a'' b'' e'', where s = defaultState] d'' by auto
  show ?thesis
    using a b c a' b' c' a'' b'' c'' e'' 1 2 3 4 by simp
qed

text \<open>
  C5, as stated, fails: the validation step rethrows inside the outer \<open>try\<close> block, so the
  \<open>catch\<close> block handles the rejection as well, and \<open>onError\<close> is invoked with the
  validation error.
\<close>

theorem validation_failure_invokes_onError_counterexample:
  "snd (executeOperation 1 (Some rejectingSchema))
     = [SetState loadingState, Call (Parse 1),
        SetState (errorState (ValidationFailure emptyValidationError)),
        SetState (errorState (ValidationFailure emptyValidationError)),
        Call (OnError (ValidationFailure emptyValidationError) 1)]"
  by (simp add: executeOperation_def executeOperation_try_def executeOperation_catch_def
        rejectingSchema_def serviceOnly_def validationPhase_def andThen_def orCatch_def
        resolve_def setState_def call_def optionalHook_def)

text \<open>
  C5, amended. When the schema rejects the (pre-processed) input with \<open>ve\<close>, the effects of
  the run are exactly: the loading write, the \<open>beforeValidation\<close> call if that hook is
  configured, the \<open>parse\<close> call, the error record of \<open>ve\<close> written by the validation step,
  the same record written again by the \<open>catch\<close> block, and the call \<open>onError(ve, input)\<close> if
  that hook is configured. No transformer, \<open>beforeService\<close>, service, result hook or
  \<open>onSuccess\<close> runs. \<open>execute\<close> rejects with \<open>ve\<close>, or with what \<open>onError\<close> throws.
\<close>

theorem validation_failure_handling:
  assumes "service opts = Some svc" and "validationSchema opts = Some parse"
      and "(case beforeValidation opts of None \<Rightarrow> Inr input | Some h \<Rightarrow> h input) = Inr pd"
      and "parse pd = Inl ve"
  shows "executeOperation input (Some opts)
           = ((case onError opts of
                 None \<Rightarrow> Inl ve
               | Some g \<Rightarrow> (case g ve input of Inl e' \<Rightarrow> Inl e' | Inr u \<Rightarrow> Inl ve)),
              [SetState loadingState]
              @ (case beforeValidation opts of
                   None \<Rightarrow> []
                 | Some h \<Rightarrow> [Call (BeforeValidation input)])
              @ [Call (Parse pd), SetState (errorState ve), SetState (errorState ve)]
              @ (case onError opts of None \<Rightarrow> [] | Some g \<Rightarrow> [Call (OnError ve input)]))"
  using assms
  by (auto simp: executeOperation_def executeOperation_try_def executeOperation_catch_def
        validationPhase_def andThen_def orCatch_def resolve_def setState_def call_def
        optionalHook_def
      split: option.splits sum.splits)

theorem validation_failure_handling_witness:
  "service rejectingSchema = Some Inr
   \<and> validationSchema rejectingSchema
       = Some (\<lambda>d. Inl (ValidationFailure emptyValidationError))
   \<and> (case beforeValidation rejectingSchema of None \<Rightarrow> Inr (1::int) | Some h \<Rightarrow> h 1) = Inr 1
   \<and> fst (executeOperation 1 (Some rejectingSchema))
       = Inl (ValidationFailure emptyValidationError)
   \<and> Call (OnError (ValidationFailure emptyValidationError) 1)
       \<in> set (snd (executeOperation 1 (Some rejectingSchema)))
   \<and> servicePayloads (snd (executeOperation 1 (Some rejectingSchema))) = []"
proof -
  have a: "service rejectingSchema = Some Inr"
    and b: "validationSchema rejectingSchema
              = Some (\<lambda>d. Inl (ValidationFailure emptyValidationError))"
    and c: "(case beforeValidation rejectingSchema of None \<Rightarrow> Inr (1::int) | Some h \<Rightarrow> h 1)
              = Inr 1"
    and d: "onError rejectingSchema = Some (\<lambda>e d. Inr ())"
    and e: "beforeValidation rejectingSchema = None"
    by (simp_all add: rejectingSchema_def serviceOnly_def)
  show ?thesis
    using validation_failure_handling[OF a b c, of "ValidationFailure emptyValidationError"]
      a b c d e
    by simp
qed

lemma servicePayloads_append:
  "servicePayloads (t1 @ t2) = servicePayloads t1 @ servicePayloads t2"
  by (induction t1 rule: servicePayloads.induct) simp_all

lemma getManyPayloads_append:
  "getManyPayloads (t1 @ t2) = getManyPayloads t1 @ getManyPayloads t2"
  by (induction t1 rule: getManyPayloads.induct) simp_all

lemma operation_catch_no_service:
  "servicePayloads (snd (executeOperation_catch input opts e)) = []"
  by (auto simp: executeOperation_catch_def run_simps split: option.splits sum.splits)

lemma readMany_catch_no_getMany:
  "getManyPayloads (snd (executeReadMany_catch params ro e)) = []"
  by (auto simp: executeReadMany_catch_def run_simps split: option.splits sum.splits)

text \<open>
  C7, as stated, fails: without a transformer the payload can still be rewritten by the
  other input hooks. Here no transformer is configured and \<open>beforeService\<close> adds one;
  \<open>create(1)\<close> calls the backend with \<open>2\<close>.
\<close>

theorem beforeService_rewrites_payload_counterexample:
  "transformer rewritingBeforeService = None
   \<and> servicePayloads (snd (executeOperation 1 (Some rewritingBeforeService))) = [2]"
  by (simp add: executeOperation_def executeOperation_try_def executeOperation_catch_def
        rewritingBeforeService_def serviceOnly_def validationPhase_def andThen_def
        orCatch_def resolve_def setState_def call_def optionalHook_def)

text \<open>
  C7, amended. When no input transformer is configured, the transform step is the
  identity: the backend service is called exactly once, with the validated input as
  \<open>beforeService\<close> (if configured) returns it. When in addition no \<open>beforeValidation\<close> hook,
  no validation schema and no \<open>beforeService\<close> hook is configured, \<open>create(dto)\<close> calls the
  backend service with \<open>dto\<close> unchanged, and \<open>getMany(params)\<close> calls the backend \<open>getMany\<close>
  exactly once with the caller's \<open>params\<close> unchanged.
\<close>

theorem no_transformer_identity:
  "(transformer opts = None \<and> service opts = Some svc
      \<and> (case beforeValidation opts of None \<Rightarrow> Inr input | Some h \<Rightarrow> h input) = Inr d1
      \<and> (case validationSchema opts of None \<Rightarrow> Inr d1 | Some parse \<Rightarrow> parse d1) = Inr d2
      \<and> (case beforeService opts of None \<Rightarrow> Inr d2 | Some h \<Rightarrow> h d2) = Inr d3
    \<longrightarrow> servicePayloads (snd (executeOperation input (Some opts))) = [d3])
   \<and> (transformer opts = None \<and> service opts = Some svc \<and> beforeValidation opts = None
      \<and> validationSchema opts = None \<and> beforeService opts = None
    \<longrightarrow> servicePayloads (snd (executeOperation input (Some opts))) = [input])
   \<and> (read_transformer ro = None \<and> read_service ro = Some rs \<and> getMany rs = Some g
      \<and> read_validationSchema ro = None \<and> read_beforeService ro = None
    \<longrightarrow> getManyPayloads (snd (executeReadMany params (Some ro))) = [params])"
proof (intro conjI impI)
  assume a: "transformer opts = None \<and> service opts = Some svc
      \<and> (case beforeValidation opts of None \<Rightarrow> Inr input | Some h \<Rightarrow> h input) = Inr d1
      \<and> (case validationSchema opts of None \<Rightarrow> Inr d1 | Some parse \<Rightarrow> parse d1) = Inr d2
      \<and> (case beforeService opts of None \<Rightarrow> Inr d2 | Some h \<Rightarrow> h d2) = Inr d3"
  then show "servicePayloads (snd (executeOperation input (Some opts))) = [d3]"
    by (auto simp: executeOperation_def executeOperation_try_def run_simps
          validationPhase_def servicePayloads_append operation_catch_no_service
        split: option.splits sum.splits)
next
  assume a: "transformer opts = None \<and> service opts = Some svc \<and> beforeValidation opts = None
      \<and> validationSchema opts = None \<and> beforeService opts = None"
  then show "servicePayloads (snd (executeOperation input (Some opts))) = [input]"
    by (auto simp: executeOperation_def executeOperation_try_def run_simps
          validationPhase_def servicePayloads_append operation_catch_no_service
        split: option.splits sum.splits)
next
  assume a: "read_transformer ro = None \<and> read_service ro = Some rs \<and> getMany rs = Some g
      \<and> read_validationSchema ro = None \<and> read_beforeService ro = None"
  then show "getManyPayloads (snd (executeReadMany params (Some ro))) = [params]"
    by (auto simp: executeReadMany_def executeReadMany_try_def run_simps
          readValidationPhase_def optionalParamsHook_def getManyPayloads_append
          readMany_catch_no_getMany
        split: option.splits sum.splits)
qed

theorem no_transformer_identity_witness:
  "transformer rewritingBeforeService = None
   \<and> service rewritingBeforeService = Some Inr
   \<and> (case beforeValidation rewritingBeforeService of None \<Rightarrow> Inr 1 | Some h \<Rightarrow> h 1) = Inr 1
   \<and> (case validationSchema rewritingBeforeService of None \<Rightarrow> Inr 1 | Some parse \<Rightarrow> parse 1)
       = Inr 1
   \<and> (case beforeService rewritingBeforeService of None \<Rightarrow> Inr 1 | Some h \<Rightarrow> h 1) = Inr 2
   \<and> servicePayloads (snd (executeOperation 1 (Some rewritingBeforeService))) = [2]
   \<and> transformer (serviceOnly Inr :: (int, int, unit) operationOptions) = None
   \<and> beforeValidation (serviceOnly Inr :: (int, int, unit) operationOptions) = None
   \<and> validationSchema (serviceOnly Inr :: (int, int, unit) operationOptions) = None
   \<and> beforeService (serviceOnly Inr :: (int, int, unit) operationOptions) = None
   \<and> servicePayloads (snd (executeOperation 1
         (Some (serviceOnly Inr :: (int, int, unit) operationOptions)))) = [1]
   \<and> read_transformer notifyingRead = None
   \<and> read_validationSchema notifyingRead = None
   \<and> read_beforeService notifyingRead = None
   \<and> getManyPayloads (snd (executeReadMany (Some 3) (Some notifyingRead))) = [Some 3]"
  using no_transformer_identity
          [of rewritingBeforeService Inr 1 1 1 2 notifyingRead
              "\<lparr>getOne = Some (\<lambda>i p. Inr 0), getMany = Some (\<lambda>p. Inr 5)\<rparr>"
              "\<lambda>p. Inr 5" "Some 3"]
        no_transformer_identity
          [of "serviceOnly Inr :: (int, int, unit) operationOptions" Inr 1 1 1 1 notifyingRead
              "\<lparr>getOne = Some (\<lambda>i p. Inr 0), getMany = Some (\<lambda>p. Inr 5)\<rparr>"
              "\<lambda>p. Inr 5" "Some 3"]
  by (simp add: rewritingBeforeService_def serviceOnly_def notifyingRead_def
        readServiceOnly_def)

text \<open>
  C10, as stated, fails for the hooks built by \<open>createTypedCrud\<close>: their \<open>afterServiceMany\<close>
  wrapper calls the caller's \<open>onSuccessMany\<close> without looking at the params. Here \<open>getMany\<close>
  resolves, params are undefined and the only thing that throws is \<open>onSuccessMany\<close>:
  \<open>execute\<close> rejects with the hook's exception and never writes the success record; with
  the hook removed the same call resolves.
\<close>

theorem typed_onSuccessMany_without_params_counterexample:
  "onSuccessMany throwingNotify = Some (\<lambda>r p. Inl (Raised ()))
   \<and> executeReadMany None (readOptions addHundred (Some throwingNotify))
     = (Inl (Raised ()),
        [SetState loadingState, Call (GetMany None),
         Call (AfterServiceMany \<lparr>result_data = [1, 2, 3], result_meta = ''page 1''\<rparr> None),
         SetState (errorState (Raised ()))])
   \<and> executeReadMany None
         (readOptions addHundred (Some (throwingNotify\<lparr>onSuccessMany := None\<rparr>)))
     = (Inr \<lparr>result_data = [101, 102, 103], result_meta = ''page 1''\<rparr>,
        [SetState loadingState, Call (GetMany None),
         Call (AfterServiceMany \<lparr>result_data = [1, 2, 3], result_meta = ''page 1''\<rparr> None),
         SetState (successState \<lparr>result_data = [101, 102, 103], result_meta = ''page 1''\<rparr>)])"
  by (simp add: throwingNotify_def readServiceOnly_def readOptions_def addHundred_def
        transformReadManyResult_def executeReadMany_def executeReadMany_try_def
        executeReadMany_catch_def readValidationPhase_def optionalParamsHook_def andThen_def
        orCatch_def resolve_def setState_def call_def)

text \<open>
  C10, amended. \<open>executeReadMany\<close> itself invokes \<open>onSuccessMany\<close> and \<open>onErrorMany\<close> only
  when params were supplied: a call with undefined params runs exactly as if the two
  hooks were replaced by anything else or removed (same outcome, same effects), its
  effects contain no call of either, and when it resolves the cell holds the success
  record of the resolved value. This is about the executor's own calls; what another
  configured hook does when it runs, such as the \<open>afterServiceMany\<close> wrapper installed by
  \<open>createTypedCrud\<close>, is not covered.
\<close>

theorem readMany_undefined_params_notifiers:
  "executeReadMany None (Some (ro\<lparr>onSuccessMany := h, onErrorMany := g\<rparr>))
     = executeReadMany None (Some ro)
   \<and> (\<forall>r p. Call (OnSuccessMany r p) \<notin> set (snd (executeReadMany None optionsRead)))
   \<and> (\<forall>e p. Call (OnErrorMany e p) \<notin> set (snd (executeReadMany None optionsRead)))
   \<and> (\<forall>r. fst (executeReadMany None optionsRead) = Inr r \<longrightarrow>
          stateAfter s (snd (executeReadMany None optionsRead)) = successState r)"
proof (intro conjI allI impI)
  show "executeReadMany None (Some (ro\<lparr>onSuccessMany := h, onErrorMany := g\<rparr>))
          = executeReadMany None (Some ro)"
    by (auto simp: executeReadMany_def executeReadMany_try_def executeReadMany_catch_def
          readValidationPhase_def optionalParamsHook_def andThen_def orCatch_def
          resolve_def setState_def call_def
        split: option.splits sum.splits)
next
  fix r p
  show "Call (OnSuccessMany r p) \<notin> set (snd (executeReadMany None optionsRead))"
    by (auto simp: executeReadMany_def executeReadMany_try_def executeReadMany_catch_def
          run_simps readValidationPhase_def optionalParamsHook_def
        split: option.splits sum.splits)
next
  fix e p
  show "Call (OnErrorMany e p) \<notin> set (snd (executeReadMany None optionsRead))"
    by (auto simp: executeReadMany_def executeReadMany_try_def executeReadMany_catch_def
          run_simps readValidationPhase_def optionalParamsHook_def
        split: option.splits sum.splits)
next
  fix r
  assume "fst (executeReadMany None optionsRead) = Inr r"
  then show "stateAfter s (snd (executeReadMany None optionsRead)) = successState r"
    by (auto simp: executeReadMany_def executeReadMany_try_def executeReadMany_catch_def
          run_simps readValidationPhase_def optionalParamsHook_def
        split: option.splits sum.splits)
qed

theorem readMany_undefined_params_notifiers_witness:
  "onSuccessMany notifyingRead \<noteq> None
   \<and> executeReadMany None (Some notifyingRead)
       = executeReadMany None (Some (notifyingRead\<lparr>onSuccessMany := None, onErrorMany := None\<rparr>))
   \<and> fst (executeReadMany None (Some notifyingRead)) = Inr 5
   \<and> stateAfter defaultState (snd (executeReadMany None (Some notifyingRead))) = successState 5
   \<and> Call (OnSuccessMany 5 None) \<notin> set (snd (executeReadMany None (Some notifyingRead)))
   \<and> Call (OnSuccessMany 5 (Some 3))
       \<in> set (snd (executeReadMany (Some 3) (Some notifyingRead)))"
proof -
  have a: "fst (executeReadMany None (Some notifyingRead)) = Inr 5"
    by (simp add: executeReadMany_def executeReadMany_try_def notifyingRead_def
          readServiceOnly_def run_simps readValidationPhase_def optionalParamsHook_def)
  have b: "Call (OnSuccessMany 5 (Some 3))
       \<in> set (snd (executeReadMany (Some 3) (Some notifyingRead)))"
    by (simp add: executeReadMany_def executeReadMany_try_def notifyingRead_def
          readServiceOnly_def run_simps readValidationPhase_def optionalParamsHook_def)
  have e: "onSuccessMany notifyingRead \<noteq> None"
    by (simp add: notifyingRead_def)
  show ?thesis
    using readMany_undefined_params_notifiers
            [where ro = notifyingRead and h = None and g = None
               and optionsRead = "Some notifyingRead" and s = defaultState]
          a b e
    by simp
qed

lemma translateIssue_message: "message (translateIssue err ve) = message ve"
  unfolding translateIssue_def Let_def by (cases "issue_path err"; cases "path ve"; simp)

lemma translateIssue_code: "code (translateIssue err ve) = code ve"
  unfolding translateIssue_def Let_def by (cases "issue_path err"; cases "path ve"; simp)

lemma translateIssue_errors:
  "errors (translateIssue err ve) k =
     (if issue_path err \<noteq> [] \<and> k = joinedPath (issue_path err) \<and> k \<noteq> ''__proto__''
      then Some (issue_message err) else errors ve k)"
  unfolding translateIssue_def Let_def objectAssign_def
  by (cases "issue_path err"; cases "path ve"; simp)

lemma translateIssue_path:
  "path (translateIssue err ve) =
     (if path ve = [] \<and> issue_path err \<noteq> [] then issue_path err else path ve)"
  unfolding translateIssue_def Let_def by (cases "issue_path err"; cases "path ve"; simp)

lemma fold_translateIssue_message:
  "message (fold translateIssue issues ve) = message ve"
  by (induction issues arbitrary: ve) (simp_all add: translateIssue_message)

lemma fold_translateIssue_code:
  "code (fold translateIssue issues ve) = code ve"
  by (induction issues arbitrary: ve) (simp_all add: translateIssue_code)

lemma fold_translateIssue_errors:
  "errors (fold translateIssue issues ve) k =
     (case filter (\<lambda>i. issue_path i \<noteq> [] \<and> k = joinedPath (issue_path i)
                          \<and> k \<noteq> ''__proto__'') issues of
        [] \<Rightarrow> errors ve k
      | i # is \<Rightarrow> Some (issue_message (last (i # is))))"
proof (induction issues arbitrary: ve)
  case Nil
  then show ?case by simp
next
  case (Cons a issues)
  show ?case
    by (simp add: Cons.IH translateIssue_errors split: list.splits)
qed

lemma fold_translateIssue_path:
  "path (fold translateIssue issues ve) =
     (if path ve \<noteq> [] then path ve
      else (case filter (\<lambda>i. issue_path i \<noteq> []) issues of
              [] \<Rightarrow> []
            | i # is \<Rightarrow> issue_path i))"
proof (induction issues arbitrary: ve)
  case Nil
  then show ?case by simp
next
  case (Cons a issues)
  show ?case
    by (simp add: Cons.IH translateIssue_path)
qed

text \<open>
  C8, as stated, fails where two field-level failures share a joined path: \<open>errors\<close> keeps
  one message per path, the last one. For the two issues on \<open>email\<close>, the first failure's
  path is not mapped to its message \<open>Too short\<close> but to \<open>Invalid email\<close>.
\<close>

theorem errors_last_message_wins_counterexample:
  "createZodValidationSchema (failingZodSchema duplicatePathIssues) 0
     = Inl (ValidationFailure (zodErrorToValidationError duplicatePathIssues))
   \<and> joinedPath (issue_path (duplicatePathIssues ! 0)) = ''email''
   \<and> issue_message (duplicatePathIssues ! 0) = ''Too short''
   \<and> errors (zodErrorToValidationError duplicatePathIssues) ''email'' = Some ''Invalid email''"
  by (simp add: createZodValidationSchema_def zodErrorToValidationError_def
        failingZodSchema_def duplicatePathIssues_def translateIssue_errors joinedPath_def)

text \<open>
  C8, amended. On an underlying schema failure, the adapter's \<open>parse\<close> throws a
  \<open>ValidationError\<close> (not the library's error) with message \<open>Validation failed\<close>. The keys of
  its \<open>errors\<close> record are exactly the dot-joined paths of the field-level failures (those
  with a non-empty path), except the joined path \<open>__proto__\<close>, which never becomes a key;
  each key is mapped to the message of the last failure with that joined path. Its \<open>path\<close>
  is the path of the first field-level failure (empty when there is none), never
  overwritten by later failures.
\<close>

theorem zod_error_translation:
  assumes "schema input = ZodError issues"
  shows "\<exists>ve. createZodValidationSchema schema input = Inl (ValidationFailure ve)
     \<and> message ve = ''Validation failed''
     \<and> code ve = None
     \<and> (\<forall>k. errors ve k =
          (if k = ''__proto__'' then None
           else (case filter (\<lambda>i. issue_path i \<noteq> [] \<and> k = joinedPath (issue_path i)) issues of
                   [] \<Rightarrow> None
                 | i # is \<Rightarrow> Some (issue_message (last (i # is))))))
     \<and> path ve =
          (case filter (\<lambda>i. issue_path i \<noteq> []) issues of
             [] \<Rightarrow> []
           | i # is \<Rightarrow> issue_path i)"
proof -
  let ?ve = "zodErrorToValidationError issues"
  have "createZodValidationSchema schema input = Inl (ValidationFailure ?ve)"
    using assms by (simp add: createZodValidationSchema_def)
  moreover have "message ?ve = ''Validation failed''"
    by (simp add: zodErrorToValidationError_def fold_translateIssue_message
          emptyValidationError_def)
  moreover have "code ?ve = None"
    by (simp add: zodErrorToValidationError_def fold_translateIssue_code
          emptyValidationError_def)
  moreover have "errors ?ve k =
          (if k = ''__proto__'' then None
           else (case filter (\<lambda>i. issue_path i \<noteq> [] \<and> k = joinedPath (issue_path i)) issues of
                   [] \<Rightarrow> None
                 | i # is \<Rightarrow> Some (issue_message (last (i # is)))))" for k
  proof (cases "k = ''__proto__''")
    case True
    then show ?thesis
      by (simp add: zodErrorToValidationError_def fold_translateIssue_errors
            emptyValidationError_def)
  next
    case False
    then show ?thesis
      by (simp add: zodErrorToValidationError_def fold_translateIssue_errors
            emptyValidationError_def split: list.splits)
  qed
  moreover have "path ?ve =
          (case filter (\<lambda>i. issue_path i \<noteq> []) issues of
             [] \<Rightarrow> []
           | i # is \<Rightarrow> issue_path i)"
    by (simp add: zodErrorToValidationError_def fold_translateIssue_path
          emptyValidationError_def)
  ultimately show ?thesis by blast
qed

theorem zod_error_translation_witness:
  "failingZodSchema mixedIssues 0 = ZodError mixedIssues
   \<and> (\<exists>ve. createZodValidationSchema (failingZodSchema mixedIssues) 0
            = Inl (ValidationFailure ve)
          \<and> message ve = ''Validation failed''
          \<and> errors ve ''items.12.name'' = Some ''Required''
          \<and> errors ve ''email'' = Some ''Invalid email''
          \<and> errors ve ''__proto__'' = None
          \<and> errors ve '''' = None
          \<and> path ve = [Key ''__proto__''])"
proof -
  have h: "failingZodSchema mixedIssues 0 = ZodError mixedIssues"
    by (simp add: failingZodSchema_def)
  from zod_error_translation[of "failingZodSchema mixedIssues" 0 mixedIssues, OF h]
  obtain ve where ve:
      "createZodValidationSchema (failingZodSchema mixedIssues) 0
         = Inl (ValidationFailure ve)"
      "message ve = ''Validation failed''"
      "\<And>k. errors ve k =
          (if k = ''__proto__'' then None
           else (case filter (\<lambda>i. issue_path i \<noteq> [] \<and> k = joinedPath (issue_path i))
                        mixedIssues of
                   [] \<Rightarrow> None
                 | i # is \<Rightarrow> Some (issue_message (last (i # is)))))"
      "path ve =
          (case filter (\<lambda>i. issue_path i \<noteq> []) mixedIssues of
             [] \<Rightarrow> []
           | i # is \<Rightarrow> issue_path i)"
    by blast
  have "errors ve ''items.12.name'' = Some ''Required''"
    and "errors ve ''email'' = Some ''Invalid email''"
    and "errors ve ''__proto__'' = None"
    and "errors ve '''' = None"
    and "path ve = [Key ''__proto__'']"
    by (simp_all add: ve(3,4) mixedIssues_def joinedPath_def)
  with ve(1,2) h show ?thesis by blast
qed

lemma executeReadMany_resolves:
  assumes "executeReadMany params optionsRead = (Inr v, t)"
  shows "\<exists>ro svc g t'. optionsRead = Some ro \<and> read_service ro = Some svc
           \<and> getMany svc = Some g
           \<and> executeReadMany_try params ro g = (Inr v, t')
           \<and> t = SetState loadingState # t'"
  using assms
  by (auto simp: executeReadMany_def executeReadMany_catch_def andThen_def orCatch_def
        setState_def resolve_def call_def
      split: option.splits prod.splits sum.splits)

lemma readMany_try_resolves:
  assumes "executeReadMany_try params ro g = (Inr v, t)"
  shows "\<exists>pp r. Call (GetMany pp) \<in> set t \<and> g pp = Inr r
           \<and> (case afterServiceMany ro of None \<Rightarrow> v = r | Some h \<Rightarrow> h r pp = Inr v)"
  using assms unfolding executeReadMany_try_def
  apply (elim andThen_InrE)
  apply (auto simp: resolve_def call_def setState_def split: option.splits)
  done

text \<open>
  C2, at its failing input: the typed factory installs \<open>infraEntityToUI\<close> both as
  \<open>resultTransformer\<close> and inside the wrapped \<open>afterService\<close>, and \<open>executeOperation\<close> runs
  both. With the transform \<open>x + 100\<close> and a backend create that resolves with \<open>6\<close>,
  \<open>create.execute\<close> resolves with \<open>206\<close> and stores \<open>206\<close>, not \<open>f(6) = 106\<close>. The
  read-one path of the same factory applies the transform once: \<open>getOne\<close> resolves with
  \<open>7\<close> and \<open>execute\<close> with \<open>107\<close>.
\<close>

theorem typed_create_transforms_twice:
  "fst (create_execute (typedOptions addHundred typedExampleOptions) 5
          (useCRUD_initialStates (typedOptions addHundred typedExampleOptions))) = Inr 206
   \<and> data (createState (snd (create_execute (typedOptions addHundred typedExampleOptions) 5
          (useCRUD_initialStates (typedOptions addHundred typedExampleOptions))))) = Some 206
   \<and> infraEntityToUI addHundred 6 = 106
   \<and> fst (readOne_execute (typedOptions addHundred typedExampleOptions) ''42'' None
          (useCRUD_initialStates (typedOptions addHundred typedExampleOptions))) = Inr 107"
  by (simp add: create_execute_def readOne_execute_def typedOptions_def createOptions_def
        readOptions_def typedExampleOptions_def addHundred_def serviceOnly_def
        readServiceOnly_def executeOperation_def executeOperation_try_def
        executeReadOne_def executeReadOne_try_def validationPhase_def readValidationPhase_def
        optionalParamsHook_def andThen_def orCatch_def resolve_def setState_def call_def
        optionalHook_def successState_def)

text \<open>
  The same in general: with only the backend configured, a typed \<open>create.execute\<close>
  resolves with \<open>f (f R)\<close>.
\<close>

lemma typed_create_result:
  "fst (executeOperation input
          (createOptions transformOpts (Some (serviceOnly (\<lambda>d. Inr R)))))
     = Inr (infraEntityToUI transformOpts (infraEntityToUI transformOpts R))"
  by (simp add: createOptions_def serviceOnly_def executeOperation_def
        executeOperation_try_def validationPhase_def andThen_def orCatch_def resolve_def
        setState_def call_def optionalHook_def)

text \<open>
  C9. For a hook produced by \<open>createTypedCrud\<close>, whenever read-many \<open>execute\<close> resolves, the
  backend \<open>getMany\<close> was called and resolved with some \<open>r\<close>, and the resolved value, which
  is also the \<open>data\<close> of the read-many state, is \<open>infraReadManyToUI r\<close> if the caller
  supplied that whole-result transformer, and otherwise \<open>r\<close> with \<open>infraEntityToUI\<close> mapped
  over its \<open>data\<close> and its \<open>meta\<close> unchanged.
\<close>

theorem typed_readMany_transform:
  assumes "readMany_execute (typedOptions transformOpts options) params states
             = (Inr v, states')"
  shows "\<exists>ro svc g pp r.
           read options = Some ro \<and> read_service ro = Some svc \<and> getMany svc = Some g
           \<and> Call (GetMany pp)
               \<in> set (snd (executeReadMany params (read (typedOptions transformOpts options))))
           \<and> g pp = Inr r
           \<and> v = (case infraReadManyToUI transformOpts of
                     Some whole \<Rightarrow> whole r
                   | None \<Rightarrow>
                       \<lparr>result_data = map (infraEntityToUI transformOpts) (result_data r),
                        result_meta = result_meta r\<rparr>)
           \<and> data (readManyState states') = Some v"
proof -
  let ?typed = "readOptions transformOpts (read options)"
  from assms obtain t where
    run: "executeReadMany params ?typed = (Inr v, t)" and
    st: "states' = states\<lparr>readManyState := stateAfter (readManyState states) t\<rparr>"
    by (auto simp: readMany_execute_def typedOptions_def split: prod.splits)
  from executeReadMany_resolves[OF run] obtain ro' svc g t' where
    typed: "?typed = Some ro'" and svc: "read_service ro' = Some svc"
    and g: "getMany svc = Some g"
    and tr: "executeReadMany_try params ro' g = (Inr v, t')"
    and t: "t = SetState loadingState # t'"
    by blast
  from typed obtain ro where ro: "read options = Some ro"
    by (cases "read options") (simp_all add: readOptions_def)
  from typed ro have svc': "read_service ro = Some svc"
    and after: "afterServiceMany ro' = Some
                     (\<lambda>result params.
                        let transformedResult = transformReadManyResult transformOpts result
                        in (case onSuccessMany ro of
                              None \<Rightarrow> Inr transformedResult
                            | Some h \<Rightarrow>
                                (case h transformedResult params of
                                   Inl e \<Rightarrow> Inl e
                                 | Inr u \<Rightarrow> Inr transformedResult)))"
    using svc by (auto simp: readOptions_def)
  from readMany_try_resolves[OF tr] after obtain pp r where
    c: "Call (GetMany pp) \<in> set t'" and r: "g pp = Inr r"
    and h: "(let transformedResult = transformReadManyResult transformOpts r
             in (case onSuccessMany ro of
                   None \<Rightarrow> Inr transformedResult
                 | Some h \<Rightarrow>
                     (case h transformedResult pp of
                        Inl e \<Rightarrow> Inl e
                      | Inr u \<Rightarrow> Inr transformedResult))) = Inr v"
    by auto
  from h have v: "v = transformReadManyResult transformOpts r"
    by (auto simp: Let_def split: option.splits sum.splits)
  have "stateAfter s t = successState v" for s
    using readMany_try_success_state[OF tr] t by simp
  with st have d: "data (readManyState states') = Some v"
    by (simp add: successState_def)
  have "Call (GetMany pp)
          \<in> set (snd (executeReadMany params (read (typedOptions transformOpts options))))"
    using run c t by (simp add: typedOptions_def)
  with ro svc' g r v d show ?thesis
    by (auto simp: transformReadManyResult_def split: option.splits)
qed

theorem typed_readMany_transform_witness:
  "readMany_execute (typedOptions addHundred typedExampleOptions) None
       (useCRUD_initialStates typedExampleOptions)
     = (Inr \<lparr>result_data = [101, 102, 103], result_meta = ''page 1''\<rparr>,
        (useCRUD_initialStates typedExampleOptions)
          \<lparr>readManyState :=
             successState \<lparr>result_data = [101, 102, 103], result_meta = ''page 1''\<rparr>\<rparr>)
   \<and> readMany_execute (typedOptions addHundredWhole typedExampleOptions) None
       (useCRUD_initialStates typedExampleOptions)
     = (Inr \<lparr>result_data = [3, 2, 1], result_meta = ''page 1''\<rparr>,
        (useCRUD_initialStates typedExampleOptions)
          \<lparr>readManyState :=
             successState \<lparr>result_data = [3, 2, 1], result_meta = ''page 1''\<rparr>\<rparr>)
   \<and> (\<exists>ro svc g pp r.
         read typedExampleOptions = Some ro \<and> read_service ro = Some svc
         \<and> getMany svc = Some g
         \<and> Call (GetMany pp)
             \<in> set (snd (executeReadMany None
                            (read (typedOptions addHundred typedExampleOptions))))
         \<and> g pp = Inr r
         \<and> \<lparr>result_data = [101, 102, 103], result_meta = ''page 1''\<rparr>
             = (case infraReadManyToUI addHundred of
                  Some whole \<Rightarrow> whole r
                | None \<Rightarrow>
                    \<lparr>result_data = map (infraEntityToUI addHundred) (result_data r),
                     result_meta = result_meta r\<rparr>)
         \<and> data (readManyState
               ((useCRUD_initialStates typedExampleOptions)
                  \<lparr>readManyState :=
                     successState
                       \<lparr>result_data = [101, 102, 103], result_meta = ''page 1''\<rparr>\<rparr>))
             = Some \<lparr>result_data = [101, 102, 103], result_meta = ''page 1''\<rparr>)"
proof -
  have a: "readMany_execute (typedOptions addHundred typedExampleOptions) None
       (useCRUD_initialStates typedExampleOptions)
     = (Inr \<lparr>result_data = [101, 102, 103], result_meta = ''page 1''\<rparr>,
        (useCRUD_initialStates typedExampleOptions)
          \<lparr>readManyState :=
             successState \<lparr>result_data = [101, 102, 103], result_meta = ''page 1''\<rparr>\<rparr>)"
    by (simp add: readMany_execute_def typedOptions_def readOptions_def
          typedExampleOptions_def addHundred_def readServiceOnly_def
          transformReadManyResult_def executeReadMany_def executeReadMany_try_def
          readValidationPhase_def optionalParamsHook_def andThen_def orCatch_def resolve_def
          setState_def call_def)
  have b: "readMany_execute (typedOptions addHundredWhole typedExampleOptions) None
       (useCRUD_initialStates typedExampleOptions)
     = (Inr \<lparr>result_data = [3, 2, 1], result_meta = ''page 1''\<rparr>,
        (useCRUD_initialStates typedExampleOptions)
          \<lparr>readManyState :=
             successState \<lparr>result_data = [3, 2, 1], result_meta = ''page 1''\<rparr>\<rparr>)"
    by (simp add: readMany_execute_def typedOptions_def readOptions_def
          typedExampleOptions_def addHundredWhole_def addHundred_def readServiceOnly_def
          transformReadManyResult_def executeReadMany_def executeReadMany_try_def
          readValidationPhase_def optionalParamsHook_def andThen_def orCatch_def resolve_def
          setState_def call_def)
  show ?thesis
    using typed_readMany_transform[OF a] a b by blast
qed

end
